theory Spec2Isabelle
  imports Complex_Main "HOL-Library.Word"
begin

section \<open>Conventions of the embedding\<close>

text \<open>
  The Python sources \<^verbatim>\<open>character_sets.py\<close>, \<^verbatim>\<open>color_handler.py\<close>,
  \<^verbatim>\<open>image_processor.py\<close> and \<^verbatim>\<open>ascii_converter.py\<close> are embedded as HOL functions.
  \<^item> A Python \<^verbatim>\<open>str\<close> is a \<open>string\<close> holding its UTF-8 bytes; a glyph table is the list of
    the glyphs of the Python sequence (one entry per code point of a charset string, one
    entry per element of an emoji list), so that \<^verbatim>\<open>len\<close> and indexing count glyphs.
  \<^item> Python \<^verbatim>\<open>int\<close> is \<open>int\<close>. Python \<^verbatim>\<open>float\<close> is \<open>rat\<close>: every float operation is the
    exact operation and a decimal literal such as \<^verbatim>\<open>0.299\<close> is the fraction it denotes.
    The rounding error of IEEE doubles is not part of the model.
  \<^item> Every exception the embedded code can raise is a constructor of \<open>error\<close>, and a
    function that can raise returns \<open>error + 'a\<close>.
\<close>

type_synonym glyph = string

datatype error = IndexError | KeyError | ZeroDivisionError | FileNotFoundError | ValueError

text \<open>\<^verbatim>\<open>xs[i]\<close> on a Python sequence: a negative index counts from the end.\<close>

definition getitem :: "'a list \<Rightarrow> int \<Rightarrow> error + 'a" where
  "getitem xs i =
     (if 0 \<le> i \<and> i < int (length xs) then Inr (xs ! nat i)
      else if i < 0 \<and> - int (length xs) \<le> i then Inr (xs ! nat (int (length xs) + i))
      else Inl IndexError)"

text \<open>\<^verbatim>\<open>d[k]\<close> on a dict, the dict being the list of its items.\<close>

definition dict_getitem :: "('k \<times> 'v) list \<Rightarrow> 'k \<Rightarrow> error + 'v" where
  "dict_getitem d k = (case map_of d k of None \<Rightarrow> Inl KeyError | Some v \<Rightarrow> Inr v)"

text \<open>\<^verbatim>\<open>int(x)\<close> on a float: truncation towards zero.\<close>

definition py_int :: "rat \<Rightarrow> int" where
  "py_int x = (if 0 \<le> x then \<lfloor>x\<rfloor> else \<lceil>x\<rceil>)"


section \<open>character\_sets.py\<close>

datatype CharacterSet = STANDARD | DETAILED | SIMPLE | BLOCKS | NUMBERS | LETTERS

text \<open>
  In Python \<^verbatim>\<open>EmojiSet.SQUARES\<close> has the value of \<^verbatim>\<open>EmojiSet.BRIGHTNESS\<close> and so is an
  alias of it; here the two are constructors with the same table.
\<close>

datatype EmojiSet = BRIGHTNESS | GRAYSCALE | HEARTS | SQUARES | NATURE | SPACE | OCEAN
  | FOOD | FACES | WEATHER | FIRE | GEOMETRIC

text \<open>The glyphs of a charset string: one single-character string per character.\<close>

definition glyphs_of :: "string \<Rightarrow> glyph list" where
  "glyphs_of s = map (\<lambda>c. [c]) s"

fun CharacterSet_value :: "CharacterSet \<Rightarrow> glyph list" where
  "CharacterSet_value STANDARD = glyphs_of ''@%#*+=-:. ''"
| "CharacterSet_value DETAILED =
     glyphs_of (''$@B%8&WM#*oahkbdpqwmZO0QLCJUYXzcvunxrjft/'' @ [CHR 0x5C]
       @ ''|()1{}[]?-_+~<>i!lI;:,'' @ [CHR 0x22] @ ''^'' @ [CHR 0x60, CHR 0x27] @ ''. '')"
| "CharacterSet_value SIMPLE = glyphs_of ''@#*:. ''"
| "CharacterSet_value BLOCKS =
     [[CHR 0xE2, CHR 0x96, CHR 0x88], [CHR 0xE2, CHR 0x96, CHR 0x93],
      [CHR 0xE2, CHR 0x96, CHR 0x92], [CHR 0xE2, CHR 0x96, CHR 0x91], '' '']"
| "CharacterSet_value NUMBERS = glyphs_of ''0123456789 ''"
| "CharacterSet_value LETTERS = glyphs_of ''MWNXK0Okxdolc:;,. ''"

fun EmojiSet_value :: "EmojiSet \<Rightarrow> glyph list" where
  "EmojiSet_value BRIGHTNESS =
    [[CHR 0xE2, CHR 0xAC, CHR 0x9B], [CHR 0xF0, CHR 0x9F, CHR 0x9F, CHR 0xAB],
     [CHR 0xF0, CHR 0x9F, CHR 0x9F, CHR 0xA5], [CHR 0xF0, CHR 0x9F, CHR 0x9F, CHR 0xA7],
     [CHR 0xF0, CHR 0x9F, CHR 0x9F, CHR 0xA8], [CHR 0xF0, CHR 0x9F, CHR 0x9F, CHR 0xA9],
     [CHR 0xF0, CHR 0x9F, CHR 0x9F, CHR 0xA6], [CHR 0xF0, CHR 0x9F, CHR 0x9F, CHR 0xAA],
     [CHR 0xE2, CHR 0xAC, CHR 0x9C]]"
| "EmojiSet_value GRAYSCALE =
    [[CHR 0xE2, CHR 0x9A, CHR 0xAB], [CHR 0xF0, CHR 0x9F, CHR 0x94, CHR 0xB4],
     [CHR 0xF0, CHR 0x9F, CHR 0x9F, CHR 0xA4], [CHR 0xF0, CHR 0x9F, CHR 0x9F, CHR 0xA0],
     [CHR 0xF0, CHR 0x9F, CHR 0x9F, CHR 0xA1], [CHR 0xF0, CHR 0x9F, CHR 0x9F, CHR 0xA2],
     [CHR 0xF0, CHR 0x9F, CHR 0x94, CHR 0xB5], [CHR 0xF0, CHR 0x9F, CHR 0x9F, CHR 0xA3],
     [CHR 0xE2, CHR 0x9A, CHR 0xAA]]"
| "EmojiSet_value HEARTS =
    [[CHR 0xF0, CHR 0x9F, CHR 0x96, CHR 0xA4],
     [CHR 0xE2, CHR 0x9D, CHR 0xA4, CHR 0xEF, CHR 0xB8, CHR 0x8F],
     [CHR 0xF0, CHR 0x9F, CHR 0xA7, CHR 0xA1], [CHR 0xF0, CHR 0x9F, CHR 0x92, CHR 0x9B],
     [CHR 0xF0, CHR 0x9F, CHR 0x92, CHR 0x9A], [CHR 0xF0, CHR 0x9F, CHR 0x92, CHR 0x99],
     [CHR 0xF0, CHR 0x9F, CHR 0x92, CHR 0x9C], [CHR 0xF0, CHR 0x9F, CHR 0xA4, CHR 0x8D],
     [CHR 0xF0, CHR 0x9F, CHR 0x92, CHR 0x97]]"
| "EmojiSet_value SQUARES =
    [[CHR 0xE2, CHR 0xAC, CHR 0x9B], [CHR 0xF0, CHR 0x9F, CHR 0x9F, CHR 0xAB],
     [CHR 0xF0, CHR 0x9F, CHR 0x9F, CHR 0xA5], [CHR 0xF0, CHR 0x9F, CHR 0x9F, CHR 0xA7],
     [CHR 0xF0, CHR 0x9F, CHR 0x9F, CHR 0xA8], [CHR 0xF0, CHR 0x9F, CHR 0x9F, CHR 0xA9],
     [CHR 0xF0, CHR 0x9F, CHR 0x9F, CHR 0xA6], [CHR 0xF0, CHR 0x9F, CHR 0x9F, CHR 0xAA],
     [CHR 0xE2, CHR 0xAC, CHR 0x9C]]"
| "EmojiSet_value NATURE =
    [[CHR 0xF0, CHR 0x9F, CHR 0x8C, CHR 0x91], [CHR 0xF0, CHR 0x9F, CHR 0x8C, CHR 0xB2],
     [CHR 0xF0, CHR 0x9F, CHR 0x8C, CHR 0xB3], [CHR 0xF0, CHR 0x9F, CHR 0x8C, CHR 0xB4],
     [CHR 0xF0, CHR 0x9F, CHR 0x8C, CHR 0xBF], [CHR 0xF0, CHR 0x9F, CHR 0x8D, CHR 0x80],
     [CHR 0xF0, CHR 0x9F, CHR 0x8C, CHR 0xB8], [CHR 0xF0, CHR 0x9F, CHR 0x8C, CHR 0xBC],
     [CHR 0xE2, CHR 0x98, CHR 0x80, CHR 0xEF, CHR 0xB8, CHR 0x8F]]"
| "EmojiSet_value SPACE =
    [[CHR 0xE2, CHR 0xAC, CHR 0x9B], [CHR 0xF0, CHR 0x9F, CHR 0x8C, CHR 0x91],
     [CHR 0xF0, CHR 0x9F, CHR 0x8C, CHR 0x99], [CHR 0xE2, CHR 0xAD, CHR 0x90],
     [CHR 0xE2, CHR 0x9C, CHR 0xA8], [CHR 0xF0, CHR 0x9F, CHR 0x92, CHR 0xAB],
     [CHR 0xF0, CHR 0x9F, CHR 0x8C, CHR 0x9F], [CHR 0xE2, CHR 0x9A, CHR 0xA1],
     [CHR 0xE2, CHR 0x98, CHR 0x80, CHR 0xEF, CHR 0xB8, CHR 0x8F]]"
| "EmojiSet_value OCEAN =
    [[CHR 0xF0, CHR 0x9F, CHR 0x8C, CHR 0x8A], [CHR 0xF0, CHR 0x9F, CHR 0x90, CHR 0xB3],
     [CHR 0xF0, CHR 0x9F, CHR 0x90, CHR 0xAC], [CHR 0xF0, CHR 0x9F, CHR 0x90, CHR 0xA0],
     [CHR 0xF0, CHR 0x9F, CHR 0x90, CHR 0x9F], [CHR 0xF0, CHR 0x9F, CHR 0xA6, CHR 0x88],
     [CHR 0xF0, CHR 0x9F, CHR 0x90, CHR 0x99], [CHR 0xF0, CHR 0x9F, CHR 0xA6, CHR 0x91],
     [CHR 0xF0, CHR 0x9F, CHR 0x92, CHR 0x8E]]"
| "EmojiSet_value FOOD =
    [[CHR 0xF0, CHR 0x9F, CHR 0x8D, CHR 0xAB], [CHR 0xF0, CHR 0x9F, CHR 0x8D, CHR 0xA9],
     [CHR 0xF0, CHR 0x9F, CHR 0x8D, CHR 0xAA], [CHR 0xF0, CHR 0x9F, CHR 0xA7, CHR 0x81],
     [CHR 0xF0, CHR 0x9F, CHR 0x8D, CHR 0xB0], [CHR 0xF0, CHR 0x9F, CHR 0x8D, CHR 0xA8],
     [CHR 0xF0, CHR 0x9F, CHR 0x8D, CHR 0xA6], [CHR 0xF0, CHR 0x9F, CHR 0x8E, CHR 0x82],
     [CHR 0xF0, CHR 0x9F, CHR 0x8D, CHR 0xAC]]"
| "EmojiSet_value FACES =
    [[CHR 0xF0, CHR 0x9F, CHR 0x98, CHR 0x88], [CHR 0xF0, CHR 0x9F, CHR 0x91, CHR 0xBF],
     [CHR 0xF0, CHR 0x9F, CHR 0x98, CHR 0xA0], [CHR 0xF0, CHR 0x9F, CHR 0x98, CHR 0x90],
     [CHR 0xF0, CHR 0x9F, CHR 0x99, CHR 0x82], [CHR 0xF0, CHR 0x9F, CHR 0x98, CHR 0x8A],
     [CHR 0xF0, CHR 0x9F, CHR 0x98, CHR 0x84], [CHR 0xF0, CHR 0x9F, CHR 0x98, CHR 0x81],
     [CHR 0xF0, CHR 0x9F, CHR 0x8C, CHR 0x9F]]"
| "EmojiSet_value WEATHER =
    [[CHR 0xF0, CHR 0x9F, CHR 0x8C, CHR 0x91],
     [CHR 0xE2, CHR 0x98, CHR 0x81, CHR 0xEF, CHR 0xB8, CHR 0x8F],
     [CHR 0xF0, CHR 0x9F, CHR 0x8C, CHR 0xA7, CHR 0xEF, CHR 0xB8, CHR 0x8F],
     [CHR 0xE2, CHR 0x9B, CHR 0x88, CHR 0xEF, CHR 0xB8, CHR 0x8F],
     [CHR 0xF0, CHR 0x9F, CHR 0x8C, CHR 0xA4, CHR 0xEF, CHR 0xB8, CHR 0x8F],
     [CHR 0xE2, CHR 0x9B, CHR 0x85],
     [CHR 0xF0, CHR 0x9F, CHR 0x8C, CHR 0xA5, CHR 0xEF, CHR 0xB8, CHR 0x8F],
     [CHR 0xE2, CHR 0x98, CHR 0x80, CHR 0xEF, CHR 0xB8, CHR 0x8F],
     [CHR 0xE2, CHR 0x9C, CHR 0xA8]]"
| "EmojiSet_value FIRE =
    [[CHR 0xE2, CHR 0xAC, CHR 0x9B], [CHR 0xF0, CHR 0x9F, CHR 0x9F, CHR 0xA4],
     [CHR 0xF0, CHR 0x9F, CHR 0x94, CHR 0xB4], [CHR 0xF0, CHR 0x9F, CHR 0x9F, CHR 0xA0],
     [CHR 0xF0, CHR 0x9F, CHR 0x9F, CHR 0xA1], [CHR 0xF0, CHR 0x9F, CHR 0x94, CHR 0xA5],
     [CHR 0xF0, CHR 0x9F, CHR 0x92, CHR 0xA5], [CHR 0xE2, CHR 0xAD, CHR 0x90],
     [CHR 0xF0, CHR 0x9F, CHR 0x92, CHR 0xAB]]"
| "EmojiSet_value GEOMETRIC =
    [[CHR 0xE2, CHR 0x97, CHR 0xBC, CHR 0xEF, CHR 0xB8, CHR 0x8F],
     [CHR 0xE2, CHR 0x97, CHR 0xBE],
     [CHR 0xE2, CHR 0x96, CHR 0xAA, CHR 0xEF, CHR 0xB8, CHR 0x8F],
     [CHR 0xE2, CHR 0x97, CHR 0xBD],
     [CHR 0xE2, CHR 0x97, CHR 0xBB, CHR 0xEF, CHR 0xB8, CHR 0x8F],
     [CHR 0xE2, CHR 0xAC, CHR 0x9C], [CHR 0xF0, CHR 0x9F, CHR 0x94, CHR 0xB2],
     [CHR 0xF0, CHR 0x9F, CHR 0x94, CHR 0xB3], [CHR 0xF0, CHR 0x9F, CHR 0x92, CHR 0xA0]]"

record CharacterMapper =
  mapper_use_emoji :: bool
  characters :: "glyph list"
  is_emoji :: bool
  num_chars :: int

text \<open>\<^verbatim>\<open>CharacterMapper.__init__\<close>; an enum member is truthy, so \<^verbatim>\<open>emoji_set\<close> counts as
  given exactly when it is not \<^verbatim>\<open>None\<close>.\<close>

definition CharacterMapper_init :: "CharacterSet \<Rightarrow> EmojiSet option \<Rightarrow> bool \<Rightarrow> CharacterMapper" where
  "CharacterMapper_init charset emoji_set use_emoji =
     (let (chars, emoji) =
        (case emoji_set of
           Some es \<Rightarrow> if use_emoji then (EmojiSet_value es, True)
                      else (CharacterSet_value charset, False)
         | None \<Rightarrow> (CharacterSet_value charset, False))
      in \<lparr>mapper_use_emoji = use_emoji, characters = chars, is_emoji = emoji,
           num_chars = int (length chars)\<rparr>)"

definition get_character :: "CharacterMapper \<Rightarrow> rat \<Rightarrow> error + glyph" where
  "get_character self brightness0 =
     (let brightness = max 0 (min 255 brightness0);
          normalized = brightness / 255;
          index0 = py_int (normalized * of_int (num_chars self - 1) + 1 / 2);
          index = max 0 (min index0 (num_chars self - 1))
      in getitem (characters self) index)"

definition get_inverted_character :: "CharacterMapper \<Rightarrow> rat \<Rightarrow> error + glyph" where
  "get_inverted_character self brightness = get_character self (255 - brightness)"

definition LARGE_RED_SQUARE :: glyph where
  "LARGE_RED_SQUARE = [CHR 0xF0, CHR 0x9F, CHR 0x9F, CHR 0xA5]"
definition LARGE_ORANGE_SQUARE :: glyph where
  "LARGE_ORANGE_SQUARE = [CHR 0xF0, CHR 0x9F, CHR 0x9F, CHR 0xA7]"
definition LARGE_YELLOW_SQUARE :: glyph where
  "LARGE_YELLOW_SQUARE = [CHR 0xF0, CHR 0x9F, CHR 0x9F, CHR 0xA8]"
definition LARGE_GREEN_SQUARE :: glyph where
  "LARGE_GREEN_SQUARE = [CHR 0xF0, CHR 0x9F, CHR 0x9F, CHR 0xA9]"
definition LARGE_BLUE_SQUARE :: glyph where
  "LARGE_BLUE_SQUARE = [CHR 0xF0, CHR 0x9F, CHR 0x9F, CHR 0xA6]"
definition LARGE_PURPLE_SQUARE :: glyph where
  "LARGE_PURPLE_SQUARE = [CHR 0xF0, CHR 0x9F, CHR 0x9F, CHR 0xAA]"
definition LARGE_BROWN_SQUARE :: glyph where
  "LARGE_BROWN_SQUARE = [CHR 0xF0, CHR 0x9F, CHR 0x9F, CHR 0xAB]"
definition BLACK_LARGE_SQUARE :: glyph where
  "BLACK_LARGE_SQUARE = [CHR 0xE2, CHR 0xAC, CHR 0x9B]"
definition WHITE_LARGE_SQUARE :: glyph where
  "WHITE_LARGE_SQUARE = [CHR 0xE2, CHR 0xAC, CHR 0x9C]"

definition color_emojis :: "(string \<times> glyph) list" where
  "color_emojis =
     [(''red'', LARGE_RED_SQUARE), (''orange'', LARGE_ORANGE_SQUARE),
      (''yellow'', LARGE_YELLOW_SQUARE), (''green'', LARGE_GREEN_SQUARE),
      (''blue'', LARGE_BLUE_SQUARE), (''purple'', LARGE_PURPLE_SQUARE),
      (''brown'', LARGE_BROWN_SQUARE), (''black'', BLACK_LARGE_SQUARE),
      (''white'', WHITE_LARGE_SQUARE)]"

definition get_colored_emoji :: "int \<Rightarrow> int \<Rightarrow> int \<Rightarrow> error + glyph" where
  "get_colored_emoji r g b =
     (let brightness = (of_int (r + g + b) :: rat) / 3 in
      if brightness < 30 then dict_getitem color_emojis ''black''
      else if brightness > 225 then dict_getitem color_emojis ''white''
      else
        (let max_channel = max r (max g b) in
         if r = max_channel then
           (if g > 150 \<and> r > 200 then dict_getitem color_emojis ''yellow''
            else if g > 100 then dict_getitem color_emojis ''orange''
            else dict_getitem color_emojis ''red'')
         else if g = max_channel then dict_getitem color_emojis ''green''
         else
           (if r > 150 then dict_getitem color_emojis ''purple''
            else dict_getitem color_emojis ''blue'')))"


definition round_half_up :: "rat \<Rightarrow> int" where
  "round_half_up x = \<lfloor>x + 1 / 2\<rfloor>"




section \<open>color\_handler.py\<close>

text \<open>The fields \<^verbatim>\<open>r\<close>, \<^verbatim>\<open>g\<close>, \<^verbatim>\<open>b\<close> of the dataclass \<^verbatim>\<open>RGB\<close> carry a prefix here.\<close>

record RGB =
  rgb_r :: int
  rgb_g :: int
  rgb_b :: int

definition digit_char :: "nat \<Rightarrow> char" where
  "digit_char d = ''0123456789abcdef'' ! d"

text \<open>\<^verbatim>\<open>str\<close> of an integer, as an f-string field \<^verbatim>\<open>{n}\<close> prints it.\<close>

fun dec_digits :: "nat \<Rightarrow> string" where
  "dec_digits n = (if n < 10 then [digit_char n] else dec_digits (n div 10) @ [digit_char (n mod 10)])"

declare dec_digits.simps [simp del]

definition str_int :: "int \<Rightarrow> string" where
  "str_int i = (if i < 0 then ''-'' @ dec_digits (nat (- i)) else dec_digits (nat i))"

text \<open>The f-string field \<^verbatim>\<open>{n:02x}\<close>: lower-case hexadecimal, the sign first, zero-padded
  to two characters.\<close>

fun hex_digits :: "nat \<Rightarrow> string" where
  "hex_digits n = (if n < 16 then [digit_char n] else hex_digits (n div 16) @ [digit_char (n mod 16)])"

declare hex_digits.simps [simp del]

definition format_02x :: "int \<Rightarrow> string" where
  "format_02x i =
     (let sign = (if i < 0 then ''-'' else []);
          digits = hex_digits (nat \<bar>i\<bar>)
      in sign @ replicate (2 - length sign - length digits) (CHR ''0'') @ digits)"

definition ESC :: string where
  "ESC = [CHR 0x1B]"

definition NL :: string where
  "NL = [CHR 0x0A]"

definition to_ansi_fg :: "RGB \<Rightarrow> string" where
  "to_ansi_fg self =
     ESC @ ''[38;2;'' @ str_int (rgb_r self) @ '';'' @ str_int (rgb_g self) @ '';''
       @ str_int (rgb_b self) @ ''m''"

definition to_ansi_bg :: "RGB \<Rightarrow> string" where
  "to_ansi_bg self =
     ESC @ ''[48;2;'' @ str_int (rgb_r self) @ '';'' @ str_int (rgb_g self) @ '';''
       @ str_int (rgb_b self) @ ''m''"

definition to_html :: "RGB \<Rightarrow> string" where
  "to_html self = ''#'' @ format_02x (rgb_r self) @ format_02x (rgb_g self) @ format_02x (rgb_b self)"

text \<open>\<^verbatim>\<open>RGB.brightness\<close>: the perceived luminance \<^verbatim>\<open>0.299 * r + 0.587 * g + 0.114 * b\<close>.\<close>

definition RGB_brightness :: "RGB \<Rightarrow> rat" where
  "RGB_brightness self =
     299 / 1000 * of_int (rgb_r self) + 587 / 1000 * of_int (rgb_g self)
       + 114 / 1000 * of_int (rgb_b self)"

datatype ColorMode = NONE | ANSI | ANSI_BG | HTML | HTML_BG

fun ColorMode_value :: "ColorMode \<Rightarrow> string" where
  "ColorMode_value NONE = ''none''"
| "ColorMode_value ANSI = ''ansi''"
| "ColorMode_value ANSI_BG = ''ansi_bg''"
| "ColorMode_value HTML = ''html''"
| "ColorMode_value HTML_BG = ''html_bg''"

record ColorHandler =
  mode :: ColorMode

definition RESET :: string where
  "RESET = ESC @ ''[0m''"

definition ColorHandler_init :: "ColorMode \<Rightarrow> ColorHandler" where
  "ColorHandler_init m = \<lparr>mode = m\<rparr>"

definition format_character :: "ColorHandler \<Rightarrow> glyph \<Rightarrow> RGB option \<Rightarrow> string" where
  \<open>format_character self char color =
     (case color of
        None \<Rightarrow> char
      | Some c \<Rightarrow>
          if mode self = NONE then char
          else if mode self = ANSI then to_ansi_fg c @ char @ RESET
          else if mode self = ANSI_BG then
            (let text_color =
               (if RGB_brightness c < 128 then \<lparr>rgb_r = 255, rgb_g = 255, rgb_b = 255\<rparr>
                else \<lparr>rgb_r = 0, rgb_g = 0, rgb_b = 0\<rparr>)
             in to_ansi_bg c @ to_ansi_fg text_color @ char @ RESET)
          else if mode self = HTML then
            (let char1 =
               (if char = ''<'' then ''&lt;''
                else if char = ''>'' then ''&gt;''
                else if char = ''&'' then ''&amp;''
                else if char = [CHR 0x22] then ''&quot;''
                else if char = '' '' then ''&nbsp;''
                else char)
             in ''<span style="color:'' @ to_html c @ ''">'' @ char1 @ ''</span>'')
          else if mode self = HTML_BG then
            (let text_color = (if RGB_brightness c < 128 then ''#ffffff'' else ''#000000'');
                 char1 = (if char = '' '' then ''&nbsp;'' else char)
             in ''<span style="background:'' @ to_html c @ '';color:'' @ text_color @ ''">''
                  @ char1 @ ''</span>'')
          else char)\<close>

definition format_emoji :: "ColorHandler \<Rightarrow> glyph \<Rightarrow> RGB option \<Rightarrow> string" where
  \<open>format_emoji self emoji color =
     (if mode self = HTML \<or> mode self = HTML_BG then ''<span class="emoji">'' @ emoji @ ''</span>''
      else emoji)\<close>

definition format_line :: "ColorHandler \<Rightarrow> string \<Rightarrow> string" where
  \<open>format_line self line =
     (if mode self = HTML \<or> mode self = HTML_BG then ''<div class="ascii-line">'' @ line @ ''</div>''
      else line)\<close>

text \<open>The document returned by \<^verbatim>\<open>wrap_output\<close> under the HTML modes.\<close>

definition html_document :: "string \<Rightarrow> string \<Rightarrow> string \<Rightarrow> string \<Rightarrow> string" where
  \<open>html_document font_size line_height letter_spacing content =
       ''<!DOCTYPE html>'' @ NL
       @ ''<html lang="en">'' @ NL
       @ ''<head>'' @ NL
       @ ''    <meta charset="UTF-8">'' @ NL
       @ ''    <meta name="viewport" content="width=device-width, initial-scale=1.0">'' @ NL
       @ ''    <title>ASCII Art</title>'' @ NL
       @ ''    <style>'' @ NL
       @ ''        * {'' @ NL
       @ ''            margin: 0;'' @ NL
       @ ''            padding: 0;'' @ NL
       @ ''            box-sizing: border-box;'' @ NL
       @ ''        }'' @ NL
       @ ''        body {'' @ NL
       @ ''            background: #1a1a2e;'' @ NL
       @ ''            display: flex;'' @ NL
       @ ''            justify-content: center;'' @ NL
       @ ''            align-items: center;'' @ NL
       @ ''            min-height: 100vh;'' @ NL
       @ ''            padding: 20px;'' @ NL
       @ ''        }'' @ NL
       @ ''        .ascii-container {'' @ NL
       @ ''            background: #16213e;'' @ NL
       @ ''            padding: 20px;'' @ NL
       @ ''            border-radius: 10px;'' @ NL
       @ ''            box-shadow: 0 10px 40px rgba(0, 0, 0, 0.5);'' @ NL
       @ ''            overflow-x: auto;'' @ NL
       @ ''        }'' @ NL
       @ ''        .ascii-art {'' @ NL
       @ ''            font-family: 'Courier New', 'Monaco', 'Menlo', monospace;'' @ NL
       @ ''            font-size: '' @ font_size @ '';'' @ NL
       @ ''            line-height: '' @ line_height @ '';'' @ NL
       @ ''            letter-spacing: '' @ letter_spacing @ '';'' @ NL
       @ ''            white-space: pre;'' @ NL
       @ ''        }'' @ NL
       @ ''        .ascii-line {'' @ NL
       @ ''            display: block;'' @ NL
       @ ''        }'' @ NL
       @ ''        .emoji {'' @ NL
       @ ''            display: inline;'' @ NL
       @ ''        }'' @ NL
       @ ''    </style>'' @ NL
       @ ''</head>'' @ NL
       @ ''<body>'' @ NL
       @ ''    <div class="ascii-container">'' @ NL
       @ ''        <div class="ascii-art">'' @ NL
       @ content @ NL
       @ ''        </div>'' @ NL
       @ ''    </div>'' @ NL
       @ ''</body>'' @ NL
       @ ''</html>''\<close>
definition wrap_output :: "ColorHandler \<Rightarrow> string \<Rightarrow> bool \<Rightarrow> string" where
  "wrap_output self content emoji =
     (if mode self = HTML \<or> mode self = HTML_BG then
        (let font_size = (if emoji then ''16px'' else ''10px'');
             line_height = (if emoji then ''18px'' else ''10px'');
             letter_spacing = (if emoji then ''2px'' else ''0px'')
         in html_document font_size line_height letter_spacing content)
      else content)"

text \<open>
  The escaping the specification asks of the HTML modes: each of the five reserved
  characters becomes its entity, every other glyph is unchanged.
\<close>

definition spec_html_escape :: "glyph \<Rightarrow> string" where
  "spec_html_escape char =
     (if char = ''<'' then ''&lt;''
      else if char = ''>'' then ''&gt;''
      else if char = ''&'' then ''&amp;''
      else if char = [CHR 0x22] then ''&quot;''
      else if char = '' '' then ''&nbsp;''
      else char)"


section \<open>image\_processor.py\<close>

text \<open>
  Pillow, NumPy and OpenCV are outside the repository. An image is known here by what the
  code can observe or decide: its size, its mode, and the list of transformations applied
  to it since it was decoded. The pixel values of an image are read through a
  \<open>pixel_source\<close>, a parameter standing for the library: a grey level for a cell of an
  image of mode \<^verbatim>\<open>L\<close>, an RGB triple for a cell of an image of mode \<^verbatim>\<open>RGB\<close>, both of
  NumPy's type \<^verbatim>\<open>uint8\<close>.
\<close>

datatype image_mode = Mode_RGB | Mode_L

datatype image_op =
    Denoised
  | Contrast rat
  | Brightness rat
  | Autocontrast
  | Sharpness rat
  | Resized int int
  | Edge_map
  | Grayscale

record image =
  img_size :: "int \<times> int"
  img_mode :: image_mode
  img_ops :: "image_op list"

record pixel_source =
  gray_at :: "image \<Rightarrow> nat \<Rightarrow> nat \<Rightarrow> 8 word"
  rgb_at :: "image \<Rightarrow> nat \<Rightarrow> nat \<Rightarrow> 8 word \<times> 8 word \<times> 8 word"

text \<open>The library calls the processor makes. A filter or an enhancement keeps size and
  mode; \<^verbatim>\<open>convert\<close> to the mode an image already has returns a copy of it.\<close>

definition pil_apply :: "image_op \<Rightarrow> image \<Rightarrow> image" where
  "pil_apply op im = im\<lparr>img_ops := img_ops im @ [op]\<rparr>"

definition pil_resize :: "image \<Rightarrow> int \<times> int \<Rightarrow> image" where
  "pil_resize im sz = im\<lparr>img_size := sz, img_ops := img_ops im @ [Resized (fst sz) (snd sz)]\<rparr>"

definition pil_convert_L :: "image \<Rightarrow> image" where
  "pil_convert_L im =
     (if img_mode im = Mode_L then im
      else im\<lparr>img_mode := Mode_L, img_ops := img_ops im @ [Grayscale]\<rparr>)"

definition pil_convert_RGB :: "image \<Rightarrow> image" where
  "pil_convert_RGB im = (if img_mode im = Mode_RGB then im else im\<lparr>img_mode := Mode_RGB\<rparr>)"

text \<open>\<^verbatim>\<open>np.array(image)\<close>: \<open>height\<close> rows of \<open>width\<close> cells.\<close>

definition np_array_L :: "pixel_source \<Rightarrow> image \<Rightarrow> 8 word list list" where
  "np_array_L ps im =
     map (\<lambda>y. map (\<lambda>x. gray_at ps im y x) [0..<nat (fst (img_size im))])
       [0..<nat (snd (img_size im))]"

definition np_array_RGB :: "pixel_source \<Rightarrow> image \<Rightarrow> (8 word \<times> 8 word \<times> 8 word) list list" where
  "np_array_RGB ps im =
     map (\<lambda>y. map (\<lambda>x. rgb_at ps im y x) [0..<nat (fst (img_size im))])
       [0..<nat (snd (img_size im))]"

text \<open>What \<^verbatim>\<open>ImageProcessor.__init__\<close> asks of the file system and of the decoder.\<close>

record image_file =
  file_exists :: bool
  file_suffix :: string
  file_size :: "int \<times> int"

record ImageProcessor =
  original_image :: image
  processed_image :: image

definition SUPPORTED_FORMATS :: "string list" where
  "SUPPORTED_FORMATS =
     [''.png'', ''.jpg'', ''.jpeg'', ''.gif'', ''.bmp'', ''.webp'', ''.tiff'', ''.ico'']"

text \<open>\<^verbatim>\<open>str.lower\<close>, on the ASCII letters.\<close>

definition lower_char :: "char \<Rightarrow> char" where
  "lower_char c =
     (let n = (of_char c :: nat) in if 65 \<le> n \<and> n \<le> 90 then char_of (n + 32) else c)"

definition lower :: "string \<Rightarrow> string" where
  "lower s = map lower_char s"

definition validate_image :: "image_file \<Rightarrow> error + unit" where
  "validate_image f =
     (if \<not> file_exists f then Inl FileNotFoundError
      else if lower (file_suffix f) \<notin> set SUPPORTED_FORMATS then Inl ValueError
      else Inr ())"

definition ImageProcessor_init :: "image_file \<Rightarrow> error + ImageProcessor" where
  "ImageProcessor_init f =
     (case validate_image f of
        Inl e \<Rightarrow> Inl e
      | Inr _ \<Rightarrow>
          (let decoded = \<lparr>img_size = file_size f, img_mode = Mode_RGB, img_ops = []\<rparr>
           in Inr \<lparr>original_image = decoded, processed_image = decoded\<rparr>))"

definition resize :: "ImageProcessor \<Rightarrow> int \<Rightarrow> int option \<Rightarrow> bool \<Rightarrow> rat \<Rightarrow> error + ImageProcessor" where
  "resize self width0 height0 maintain_aspect char_aspect_ratio =
     (let (original_width, original_height) = img_size (processed_image self);
          finish = (\<lambda>h. let height1 = max 1 h; width1 = max 1 width0
                         in Inr (self\<lparr>processed_image :=
                                        pil_resize (processed_image self) (width1, height1)\<rparr>))
      in if maintain_aspect then
           (if original_width = 0 then Inl ZeroDivisionError
            else
              (let image_aspect = (of_int original_height :: rat) / of_int original_width
               in finish (py_int (of_int width0 * image_aspect * char_aspect_ratio))))
         else (case height0 of None \<Rightarrow> finish width0 | Some h \<Rightarrow> finish h))"

definition to_grayscale :: "ImageProcessor \<Rightarrow> ImageProcessor" where
  "to_grayscale self = self\<lparr>processed_image := pil_convert_L (processed_image self)\<rparr>"

definition adjust_contrast :: "ImageProcessor \<Rightarrow> rat \<Rightarrow> ImageProcessor" where
  "adjust_contrast self factor =
     self\<lparr>processed_image := pil_apply (Contrast factor) (processed_image self)\<rparr>"

definition adjust_brightness :: "ImageProcessor \<Rightarrow> rat \<Rightarrow> ImageProcessor" where
  "adjust_brightness self factor =
     self\<lparr>processed_image := pil_apply (Brightness factor) (processed_image self)\<rparr>"

definition ImageProcessor_sharpen :: "ImageProcessor \<Rightarrow> rat \<Rightarrow> ImageProcessor" where
  "ImageProcessor_sharpen self factor =
     self\<lparr>processed_image := pil_apply (Sharpness factor) (processed_image self)\<rparr>"

text \<open>\<^verbatim>\<open>edge_detection\<close>: the inverted Canny edges with OpenCV, the inverted
  \<^verbatim>\<open>FIND_EDGES\<close> filter without; either way one image of mode \<^verbatim>\<open>L\<close> and the same size.\<close>

definition ImageProcessor_edge_detection :: "ImageProcessor \<Rightarrow> ImageProcessor" where
  "ImageProcessor_edge_detection self =
     self\<lparr>processed_image :=
            (processed_image self)\<lparr>img_mode := Mode_L,
               img_ops := img_ops (processed_image self) @ [Edge_map]\<rparr>\<rparr>"

text \<open>\<^verbatim>\<open>denoise\<close>: the bilateral filter with OpenCV, the median filter without.\<close>

definition ImageProcessor_denoise :: "ImageProcessor \<Rightarrow> ImageProcessor" where
  "ImageProcessor_denoise self =
     self\<lparr>processed_image := pil_apply Denoised (processed_image self)\<rparr>"

definition ImageProcessor_auto_enhance :: "ImageProcessor \<Rightarrow> ImageProcessor" where
  "ImageProcessor_auto_enhance self =
     self\<lparr>processed_image := pil_apply Autocontrast (processed_image self)\<rparr>"

definition get_pixel_matrix :: "pixel_source \<Rightarrow> ImageProcessor \<Rightarrow> 8 word list list" where
  "get_pixel_matrix ps self =
     (if img_mode (processed_image self) \<noteq> Mode_L
      then np_array_L ps (pil_convert_L (processed_image self))
      else np_array_L ps (processed_image self))"

definition get_color_matrix :: "pixel_source \<Rightarrow> ImageProcessor \<Rightarrow> (8 word \<times> 8 word \<times> 8 word) list list" where
  "get_color_matrix ps self =
     (let rgb_image = pil_convert_RGB (original_image self);
          resized = pil_resize rgb_image (img_size (processed_image self))
      in np_array_RGB ps resized)"

definition ImageProcessor_size :: "ImageProcessor \<Rightarrow> int \<times> int" where
  "ImageProcessor_size self = img_size (processed_image self)"


section \<open>ascii\_converter.py\<close>

record ConversionSettings =
  width :: int
  height :: "int option"
  charset :: CharacterSet
  color_mode :: ColorMode
  invert :: bool
  contrast :: rat
  brightness :: rat
  edge_detection :: bool
  denoise :: bool
  use_emoji :: bool
  emoji_set :: EmojiSet
  color_emoji :: bool
  dithering :: bool
  sharpen :: rat
  auto_enhance :: bool

text \<open>\<^verbatim>\<open>ConversionSettings()\<close>: the defaults of the dataclass.\<close>

definition ConversionSettings_default :: ConversionSettings where
  "ConversionSettings_default =
     \<lparr>width = 100, height = None, charset = DETAILED, color_mode = NONE, invert = False,
      contrast = 12 / 10, brightness = 1, edge_detection = False, denoise = True,
      use_emoji = False, emoji_set = BRIGHTNESS, color_emoji = False, dithering = False,
      sharpen = 1, auto_enhance = False\<rparr>"

text \<open>The fields of the dataclass \<^verbatim>\<open>ASCIIArt\<close> that share a name with a field above carry
  the prefix \<open>art_\<close>.\<close>

record ASCIIArt =
  art :: string
  art_width :: int
  art_height :: int
  colored :: bool
  art_is_emoji :: bool
  art_settings :: ConversionSettings

definition get_charset_by_name :: "string \<Rightarrow> CharacterSet" where
  "get_charset_by_name name =
     (case map_of
        [(''standard'', STANDARD), (''detailed'', DETAILED), (''simple'', SIMPLE),
         (''blocks'', BLOCKS), (''numbers'', NUMBERS), (''letters'', LETTERS)] (lower name) of
        Some cs \<Rightarrow> cs
      | None \<Rightarrow> DETAILED)"

definition get_emoji_set_by_name :: "string \<Rightarrow> EmojiSet" where
  "get_emoji_set_by_name name =
     (case map_of
        [(''brightness'', BRIGHTNESS), (''grayscale'', GRAYSCALE), (''hearts'', HEARTS),
         (''squares'', SQUARES), (''nature'', NATURE), (''space'', SPACE), (''ocean'', OCEAN),
         (''food'', FOOD), (''faces'', FACES), (''weather'', WEATHER), (''fire'', FIRE),
         (''geometric'', GEOMETRIC)] (lower name) of
        Some es \<Rightarrow> es
      | None \<Rightarrow> BRIGHTNESS)"

text \<open>\<^verbatim>\<open>ColorMode(value)\<close>: the member with that value, \<^verbatim>\<open>ValueError\<close> when there is none.\<close>

definition ColorMode_of_value :: "string \<Rightarrow> error + ColorMode" where
  "ColorMode_of_value v =
     (case find (\<lambda>m. ColorMode_value m = v) [NONE, ANSI, ANSI_BG, HTML, HTML_BG] of
        Some m \<Rightarrow> Inr m
      | None \<Rightarrow> Inl ValueError)"

text \<open>
  The keyword arguments of \<^verbatim>\<open>convert\<close> that name a field of the settings, each absent
  (\<open>None\<close>) or given with a value of the field's type; \<^verbatim>\<open>charset\<close>, \<^verbatim>\<open>emoji_set\<close> and
  \<^verbatim>\<open>color_mode\<close> may also be given as a string (\<open>Inl\<close>). A keyword that names no field
  fails \<^verbatim>\<open>hasattr\<close> and is skipped by the loop; it has no place in this record.
\<close>

record kwargs =
  kw_width :: "int option"
  kw_height :: "int option option"
  kw_charset :: "(string + CharacterSet) option"
  kw_color_mode :: "(string + ColorMode) option"
  kw_invert :: "bool option"
  kw_contrast :: "rat option"
  kw_brightness :: "rat option"
  kw_edge_detection :: "bool option"
  kw_denoise :: "bool option"
  kw_use_emoji :: "bool option"
  kw_emoji_set :: "(string + EmojiSet) option"
  kw_color_emoji :: "bool option"
  kw_dithering :: "bool option"
  kw_sharpen :: "rat option"
  kw_auto_enhance :: "bool option"

definition no_kwargs :: kwargs where
  "no_kwargs =
     \<lparr>kw_width = None, kw_height = None, kw_charset = None, kw_color_mode = None,
      kw_invert = None, kw_contrast = None, kw_brightness = None, kw_edge_detection = None,
      kw_denoise = None, kw_use_emoji = None, kw_emoji_set = None, kw_color_emoji = None,
      kw_dithering = None, kw_sharpen = None, kw_auto_enhance = None\<rparr>"

text \<open>The three \<^verbatim>\<open>isinstance(..., str)\<close> rewrites of \<^verbatim>\<open>kwargs\<close> at the head of \<^verbatim>\<open>convert\<close>.\<close>

definition resolve_names :: "kwargs \<Rightarrow> error + kwargs" where
  "resolve_names kw =
     (let kw1 = (case kw_charset kw of
                   Some (Inl name) \<Rightarrow> kw\<lparr>kw_charset := Some (Inr (get_charset_by_name name))\<rparr>
                 | _ \<Rightarrow> kw);
          kw2 = (case kw_emoji_set kw1 of
                   Some (Inl name) \<Rightarrow> kw1\<lparr>kw_emoji_set := Some (Inr (get_emoji_set_by_name name))\<rparr>
                 | _ \<Rightarrow> kw1)
      in case kw_color_mode kw2 of
           Some (Inl v) \<Rightarrow>
             (case ColorMode_of_value v of
                Inl e \<Rightarrow> Inl e
              | Inr m \<Rightarrow> Inr (kw2\<lparr>kw_color_mode := Some (Inr m)\<rparr>))
         | _ \<Rightarrow> Inr kw2)"

text \<open>\<^verbatim>\<open>setattr(settings, key, value)\<close> for one key: the object itself is updated.\<close>

definition setattr_opt :: "'v option \<Rightarrow> ('v \<Rightarrow> 's \<Rightarrow> 's) \<Rightarrow> 's \<Rightarrow> 's" where
  "setattr_opt v upd s = (case v of None \<Rightarrow> s | Some x \<Rightarrow> upd x s)"

definition enum_of :: "(string + 'e) option \<Rightarrow> 'e option" where
  "enum_of v = (case v of Some (Inr e) \<Rightarrow> Some e | _ \<Rightarrow> None)"

text \<open>The loop \<^verbatim>\<open>for key, value in kwargs.items()\<close>, run on resolved keyword arguments.\<close>

definition override :: "kwargs \<Rightarrow> ConversionSettings \<Rightarrow> ConversionSettings" where
  "override kw =
     setattr_opt (kw_auto_enhance kw) (\<lambda>v s. s\<lparr>auto_enhance := v\<rparr>)
     \<circ> setattr_opt (kw_sharpen kw) (\<lambda>v s. s\<lparr>sharpen := v\<rparr>)
     \<circ> setattr_opt (kw_dithering kw) (\<lambda>v s. s\<lparr>dithering := v\<rparr>)
     \<circ> setattr_opt (kw_color_emoji kw) (\<lambda>v s. s\<lparr>color_emoji := v\<rparr>)
     \<circ> setattr_opt (enum_of (kw_emoji_set kw)) (\<lambda>v s. s\<lparr>emoji_set := v\<rparr>)
     \<circ> setattr_opt (kw_use_emoji kw) (\<lambda>v s. s\<lparr>use_emoji := v\<rparr>)
     \<circ> setattr_opt (kw_denoise kw) (\<lambda>v s. s\<lparr>denoise := v\<rparr>)
     \<circ> setattr_opt (kw_edge_detection kw) (\<lambda>v s. s\<lparr>edge_detection := v\<rparr>)
     \<circ> setattr_opt (kw_brightness kw) (\<lambda>v s. s\<lparr>brightness := v\<rparr>)
     \<circ> setattr_opt (kw_contrast kw) (\<lambda>v s. s\<lparr>contrast := v\<rparr>)
     \<circ> setattr_opt (kw_invert kw) (\<lambda>v s. s\<lparr>invert := v\<rparr>)
     \<circ> setattr_opt (enum_of (kw_color_mode kw)) (\<lambda>v s. s\<lparr>color_mode := v\<rparr>)
     \<circ> setattr_opt (enum_of (kw_charset kw)) (\<lambda>v s. s\<lparr>charset := v\<rparr>)
     \<circ> setattr_opt (kw_height kw) (\<lambda>v s. s\<lparr>height := v\<rparr>)
     \<circ> setattr_opt (kw_width kw) (\<lambda>v s. s\<lparr>width := v\<rparr>)"

text \<open>\<^verbatim>\<open>_apply_preprocessing\<close>: each step replaces the working image of the processor.\<close>

definition apply_preprocessing :: "ConversionSettings \<Rightarrow> ImageProcessor \<Rightarrow> error + ImageProcessor" where
  "apply_preprocessing settings processor =
     (let p1 = (if denoise settings then ImageProcessor_denoise processor else processor);
          p2 = (if contrast settings \<noteq> 1 then adjust_contrast p1 (contrast settings) else p1);
          p3 = (if brightness settings \<noteq> 1 then adjust_brightness p2 (brightness settings) else p2);
          p4 = (if auto_enhance settings then ImageProcessor_auto_enhance p3 else p3);
          p5 = (if sharpen settings \<noteq> 1 then ImageProcessor_sharpen p4 (sharpen settings) else p4);
          char_aspect = (if use_emoji settings then 1 else 1 / 2)
      in case resize p5 (width settings) (height settings) (height settings = None) char_aspect of
           Inl e \<Rightarrow> Inl e
         | Inr p6 \<Rightarrow>
             Inr (if edge_detection settings \<and> \<not> use_emoji settings
                  then ImageProcessor_edge_detection p6
                  else if \<not> use_emoji settings then to_grayscale p6
                  else p6))"

text \<open>A \<^verbatim>\<open>for\<close> loop that appends one result per element and stops at the first exception.\<close>

fun for_each :: "('a \<Rightarrow> error + 'b) \<Rightarrow> 'a list \<Rightarrow> error + 'b list" where
  "for_each f [] = Inr []"
| "for_each f (x # xs) =
     (case f x of
        Inl e \<Rightarrow> Inl e
      | Inr v \<Rightarrow> (case for_each f xs of Inl e \<Rightarrow> Inl e | Inr vs \<Rightarrow> Inr (v # vs)))"

text \<open>\<^verbatim>\<open>matrix[y, x]\<close> on a NumPy array, for indices that are not negative.\<close>

definition cell_at :: "'a list list \<Rightarrow> nat \<Rightarrow> nat \<Rightarrow> error + 'a" where
  "cell_at matrix y x =
     (if y < length matrix \<and> x < length (matrix ! y) then Inr (matrix ! y ! x)
      else Inl IndexError)"

definition RGB_of_cell :: "8 word \<times> 8 word \<times> 8 word \<Rightarrow> RGB" where
  "RGB_of_cell c =
     (case c of (r, g, b) \<Rightarrow> \<lparr>rgb_r = uint r, rgb_g = uint g, rgb_b = uint b\<rparr>)"

text \<open>The body of the inner loop of \<^verbatim>\<open>_generate_ascii\<close>: the text of the cell \<open>(y, x)\<close>.\<close>

definition generate_cell ::
  "ConversionSettings \<Rightarrow> CharacterMapper \<Rightarrow> ColorHandler \<Rightarrow> 8 word list list
    \<Rightarrow> (8 word \<times> 8 word \<times> 8 word) list list option \<Rightarrow> nat \<Rightarrow> nat \<Rightarrow> error + string" where
  "generate_cell settings mapper color_handler grayscale_matrix color_matrix y x =
     (case cell_at grayscale_matrix y x of
        Inl e \<Rightarrow> Inl e
      | Inr level \<Rightarrow>
          (let cell_brightness = (of_nat (unat level) :: rat);
               glyph_result =
                 (case color_matrix of
                    Some cm \<Rightarrow>
                      if use_emoji settings \<and> color_emoji settings then
                        (case cell_at cm y x of
                           Inl e \<Rightarrow> Inl e
                         | Inr c \<Rightarrow> get_colored_emoji (rgb_r (RGB_of_cell c))
                                     (rgb_g (RGB_of_cell c)) (rgb_b (RGB_of_cell c)))
                      else if invert settings then get_inverted_character mapper cell_brightness
                      else get_character mapper cell_brightness
                  | None \<Rightarrow>
                      if invert settings then get_inverted_character mapper cell_brightness
                      else get_character mapper cell_brightness)
           in case glyph_result of
                Inl e \<Rightarrow> Inl e
              | Inr char \<Rightarrow>
                  (case color_matrix of
                     Some cm \<Rightarrow>
                       if color_mode settings \<noteq> NONE then
                         (case cell_at cm y x of
                            Inl e \<Rightarrow> Inl e
                          | Inr c \<Rightarrow>
                              Inr (if use_emoji settings
                                   then format_emoji color_handler char (Some (RGB_of_cell c))
                                   else format_character color_handler char (Some (RGB_of_cell c))))
                       else Inr char
                   | None \<Rightarrow> Inr char)))"

text \<open>The two nested loops of \<^verbatim>\<open>_generate_ascii\<close>, over the shape of the grey matrix.\<close>

definition render_lines ::
  "ConversionSettings \<Rightarrow> CharacterMapper \<Rightarrow> ColorHandler \<Rightarrow> 8 word list list
    \<Rightarrow> (8 word \<times> 8 word \<times> 8 word) list list option \<Rightarrow> error + string list" where
  "render_lines settings mapper color_handler grayscale_matrix color_matrix =
     (let rows = length grayscale_matrix;
          cols = (case grayscale_matrix of [] \<Rightarrow> 0 | row # _ \<Rightarrow> length row)
      in for_each
           (\<lambda>y. case for_each
                        (generate_cell settings mapper color_handler grayscale_matrix color_matrix y)
                        [0..<cols] of
                   Inl e \<Rightarrow> Inl e
                 | Inr line_chars \<Rightarrow>
                     (let line = concat line_chars
                      in Inr (if color_mode settings = HTML \<or> color_mode settings = HTML_BG
                              then format_line color_handler line else line)))
           [0..<rows])"

definition generate_ascii :: "pixel_source \<Rightarrow> ConversionSettings \<Rightarrow> ImageProcessor \<Rightarrow> error + string list" where
  "generate_ascii ps settings processor =
     (let grayscale_matrix = get_pixel_matrix ps processor;
          color_matrix =
            (if color_mode settings \<noteq> NONE \<or> color_emoji settings
             then Some (get_color_matrix ps processor) else None);
          mapper = CharacterMapper_init (charset settings)
                     (if use_emoji settings then Some (emoji_set settings) else None)
                     (use_emoji settings);
          color_handler = ColorHandler_init (color_mode settings)
      in render_lines settings mapper color_handler grayscale_matrix color_matrix)"

text \<open>\<^verbatim>\<open>'\n'.join(lines)\<close>.\<close>

fun join_lines :: "string list \<Rightarrow> string" where
  "join_lines [] = []"
| "join_lines [l] = l"
| "join_lines (l # ls) = l @ NL @ join_lines ls"

text \<open>
  \<^verbatim>\<open>ASCIIConverter.convert\<close>. The settings object is shared with the caller, so the
  function returns the state of that object after the call next to the outcome of the
  call: the artifact, or the exception raised.
\<close>

definition convert ::
  "pixel_source \<Rightarrow> image_file \<Rightarrow> ConversionSettings option \<Rightarrow> kwargs
     \<Rightarrow> ConversionSettings \<times> (error + ASCIIArt)" where
  "convert ps image_path settings0 kw0 =
     (let settings1 = (case settings0 of None \<Rightarrow> ConversionSettings_default | Some s \<Rightarrow> s)
      in case resolve_names kw0 of
           Inl e \<Rightarrow> (settings1, Inl e)
         | Inr kw \<Rightarrow>
             (let settings = override kw settings1
              in (settings,
                  case ImageProcessor_init image_path of
                    Inl e \<Rightarrow> Inl e
                  | Inr processor0 \<Rightarrow>
                      (case apply_preprocessing settings processor0 of
                         Inl e \<Rightarrow> Inl e
                       | Inr processor \<Rightarrow>
                           (case generate_ascii ps settings processor of
                              Inl e \<Rightarrow> Inl e
                            | Inr ascii_lines \<Rightarrow>
                                (let color_handler = ColorHandler_init (color_mode settings);
                                     formatted_art = wrap_output color_handler
                                       (join_lines ascii_lines) (use_emoji settings)
                                 in Inr \<lparr>art = formatted_art,
                                         art_width = fst (ImageProcessor_size processor),
                                         art_height = snd (ImageProcessor_size processor),
                                         colored = (color_mode settings \<noteq> NONE),
                                         art_is_emoji = use_emoji settings,
                                         art_settings = settings\<rparr>))))))"

text \<open>
  Sample inputs for the concrete evaluations below: a pixel source whose every cell is
  black, and PNG files of 200 by 150, 2 by 1 and 1 by 1 pixels.
\<close>

definition black_source :: pixel_source where
  "black_source = \<lparr>gray_at = (\<lambda>im y x. 0), rgb_at = (\<lambda>im y x. (0, 0, 0))\<rparr>"

definition png_file :: "int \<Rightarrow> int \<Rightarrow> image_file" where
  "png_file w h = \<lparr>file_exists = True, file_suffix = ''.png'', file_size = (w, h)\<rparr>"


text \<open>
  The operations the pipeline is to apply, in the order of the specification, and the size
  it is to reach with the integer part of the scaled height.
\<close>

definition enhancement_ops :: "ConversionSettings \<Rightarrow> image_op list" where
  "enhancement_ops s =
     (if denoise s then [Denoised] else [])
     @ (if contrast s \<noteq> 1 then [Contrast (contrast s)] else [])
     @ (if brightness s \<noteq> 1 then [Brightness (brightness s)] else [])
     @ (if auto_enhance s then [Autocontrast] else [])
     @ (if sharpen s \<noteq> 1 then [Sharpness (sharpen s)] else [])"

definition final_ops :: "ConversionSettings \<Rightarrow> image_op list" where
  "final_ops s = (if use_emoji s then [] else if edge_detection s then [Edge_map] else [Grayscale])"

definition target_size :: "ConversionSettings \<Rightarrow> int \<times> int \<Rightarrow> int \<times> int" where
  "target_size s sz =
     (max 1 (width s),
      case height s of
        Some h \<Rightarrow> max 1 h
      | None \<Rightarrow> max 1 \<lfloor>of_int (width s) * ((of_int (snd sz) :: rat) / of_int (fst sz))
                          * (if use_emoji s then 1 else 1 / 2)\<rfloor>)"


section \<open>Properties of the glyph mapper\<close>


lemma getitem_in_range: "0 \<le> i \<Longrightarrow> i < int (length xs) \<Longrightarrow> getitem xs i = Inr (xs ! nat i)"
  by (simp add: getitem_def)

lemma getitem_empty: "getitem [] i = Inl IndexError"
  by (simp add: getitem_def)



text \<open>Half-up rounding picks the integer \<open>k\<close> with \<open>k - 1/2 \<le> x < k + 1/2\<close>: the nearest
  integer, a tie going to the larger one.\<close>

lemma round_half_up_nearest:
  "of_int (round_half_up x) - 1 / 2 \<le> x \<and> x < of_int (round_half_up x) + 1 / 2"
proof -
  have "of_int \<lfloor>x + 1 / 2\<rfloor> \<le> x + 1 / 2" and "x + 1 / 2 < of_int \<lfloor>x + 1 / 2\<rfloor> + 1"
    by linarith+
  then show ?thesis
    unfolding round_half_up_def by linarith
qed





lemma init_num_chars:
  "num_chars (CharacterMapper_init cs es ue) = int (length (characters (CharacterMapper_init cs es ue)))"
  by (simp add: CharacterMapper_init_def split: option.splits)

lemma CharacterSet_value_nonempty: "CharacterSet_value cs \<noteq> []"
  by (cases cs) (simp_all add: glyphs_of_def)

lemma EmojiSet_value_nonempty: "EmojiSet_value es \<noteq> []"
  by (cases es) simp_all

lemma init_characters_nonempty: "characters (CharacterMapper_init cs es ue) \<noteq> []"
  by (simp add: CharacterMapper_init_def CharacterSet_value_nonempty EmojiSet_value_nonempty
      split: option.splits)



text \<open>An empty table makes the lookup raise; the claim's \<open>n \<ge> 1\<close> is needed.\<close>

lemma get_character_empty_table:
  "characters self = [] \<Longrightarrow> get_character self b = Inl IndexError"
  by (simp add: get_character_def Let_def getitem_empty)

text \<open>
  Claim C10. For every brightness \<open>b\<close> (in particular every \<open>b\<close> in \<open>[0, 255]\<close>) and every
  glyph table, the inverted mapping at \<open>b\<close> is the standard mapping at \<open>255 - b\<close>.
\<close>

theorem get_inverted_character_mirror:
  "get_inverted_character self b = get_character self (255 - b)"
  by (simp add: get_inverted_character_def)

theorem get_inverted_character_mirror_witness:
  "get_inverted_character (CharacterMapper_init SIMPLE None False) 0 = Inr '' ''
   \<and> get_character (CharacterMapper_init SIMPLE None False) (255 - 0) = Inr '' ''"
proof -
  have "get_character (CharacterMapper_init SIMPLE None False) 255 = Inr '' ''"
    by code_simp
  then show ?thesis
    using get_inverted_character_mirror [of "CharacterMapper_init SIMPLE None False" 0] by simp
qed


text \<open>The nine glyphs of the colour table are pairwise distinct, and every key used by the
  classification is present.\<close>

lemma color_emojis_distinct: "distinct (map snd color_emojis)"
  by (simp add: color_emojis_def LARGE_RED_SQUARE_def LARGE_ORANGE_SQUARE_def
      LARGE_YELLOW_SQUARE_def LARGE_GREEN_SQUARE_def LARGE_BLUE_SQUARE_def
      LARGE_PURPLE_SQUARE_def LARGE_BROWN_SQUARE_def BLACK_LARGE_SQUARE_def
      WHITE_LARGE_SQUARE_def)

lemma color_emojis_lookup:
  "dict_getitem color_emojis ''red'' = Inr LARGE_RED_SQUARE"
  "dict_getitem color_emojis ''orange'' = Inr LARGE_ORANGE_SQUARE"
  "dict_getitem color_emojis ''yellow'' = Inr LARGE_YELLOW_SQUARE"
  "dict_getitem color_emojis ''green'' = Inr LARGE_GREEN_SQUARE"
  "dict_getitem color_emojis ''blue'' = Inr LARGE_BLUE_SQUARE"
  "dict_getitem color_emojis ''purple'' = Inr LARGE_PURPLE_SQUARE"
  "dict_getitem color_emojis ''black'' = Inr BLACK_LARGE_SQUARE"
  "dict_getitem color_emojis ''white'' = Inr WHITE_LARGE_SQUARE"
  by (simp_all add: dict_getitem_def color_emojis_def)

lemma mean_below: "((of_int s :: rat) / 3 < 30) = (s < 90)"
proof -
  have "((of_int s :: rat) / 3 < 30) = ((of_int s :: rat) < of_int 90)"
    by simp
  also have "\<dots> = (s < 90)"
    by (simp only: of_int_less_iff)
  finally show ?thesis .
qed

lemma mean_above: "((of_int s :: rat) / 3 > 225) = (s > 675)"
proof -
  have "((of_int s :: rat) / 3 > 225) = ((of_int 675 :: rat) < of_int s)"
    by simp
  also have "\<dots> = (675 < s)"
    by (simp only: of_int_less_iff)
  finally show ?thesis .
qed

text \<open>
  Claim C3. For channels in \<open>[0, 255]\<close> the colour-driven classification returns, in this
  order: black when the mean \<open>(r + g + b) / 3\<close> is below 30; else white when the mean is
  above 225; else, when red is the maximum, yellow if \<open>g > 150\<close> and \<open>r > 200\<close>, else orange
  if \<open>g > 100\<close>, else red; else, when green is the maximum, green; else (blue is the
  maximum) purple if \<open>r > 150\<close>, else blue. The five sample triples map to black, white,
  yellow, green and blue.
\<close>

theorem get_colored_emoji_decision:
  assumes "0 \<le> r" "r \<le> 255" "0 \<le> g" "g \<le> 255" "0 \<le> b" "b \<le> 255"
  shows "((of_int (r + g + b) :: rat) / 3 < 30 \<longrightarrow>
            get_colored_emoji r g b = Inr BLACK_LARGE_SQUARE)
    \<and> (\<not> (of_int (r + g + b) :: rat) / 3 < 30 \<and> (of_int (r + g + b) :: rat) / 3 > 225 \<longrightarrow>
            get_colored_emoji r g b = Inr WHITE_LARGE_SQUARE)
    \<and> (\<not> (of_int (r + g + b) :: rat) / 3 < 30 \<and> \<not> (of_int (r + g + b) :: rat) / 3 > 225 \<longrightarrow>
          (g \<le> r \<and> b \<le> r \<longrightarrow>
             get_colored_emoji r g b =
               (if g > 150 \<and> r > 200 then Inr LARGE_YELLOW_SQUARE
                else if g > 100 then Inr LARGE_ORANGE_SQUARE
                else Inr LARGE_RED_SQUARE))
        \<and> (\<not> (g \<le> r \<and> b \<le> r) \<and> r \<le> g \<and> b \<le> g \<longrightarrow>
             get_colored_emoji r g b = Inr LARGE_GREEN_SQUARE)
        \<and> (\<not> (g \<le> r \<and> b \<le> r) \<and> \<not> (r \<le> g \<and> b \<le> g) \<longrightarrow>
             r < b \<and> g < b \<and>
             get_colored_emoji r g b =
               (if r > 150 then Inr LARGE_PURPLE_SQUARE else Inr LARGE_BLUE_SQUARE)))
    \<and> get_colored_emoji 10 10 10 = Inr BLACK_LARGE_SQUARE
    \<and> get_colored_emoji 245 245 245 = Inr WHITE_LARGE_SQUARE
    \<and> get_colored_emoji 220 180 10 = Inr LARGE_YELLOW_SQUARE
    \<and> get_colored_emoji 0 200 0 = Inr LARGE_GREEN_SQUARE
    \<and> get_colored_emoji 10 10 220 = Inr LARGE_BLUE_SQUARE"
proof -
  have samples: "get_colored_emoji 10 10 10 = Inr BLACK_LARGE_SQUARE"
    "get_colored_emoji 245 245 245 = Inr WHITE_LARGE_SQUARE"
    "get_colored_emoji 220 180 10 = Inr LARGE_YELLOW_SQUARE"
    "get_colored_emoji 0 200 0 = Inr LARGE_GREEN_SQUARE"
    "get_colored_emoji 10 10 220 = Inr LARGE_BLUE_SQUARE"
    by (simp_all add: get_colored_emoji_def color_emojis_lookup)
  have dark: "(of_int (r + g + b) :: rat) / 3 < 30 \<longrightarrow>
      get_colored_emoji r g b = Inr BLACK_LARGE_SQUARE"
    by (simp add: get_colored_emoji_def color_emojis_lookup)
  have light: "\<not> (of_int (r + g + b) :: rat) / 3 < 30 \<and> (of_int (r + g + b) :: rat) / 3 > 225 \<longrightarrow>
      get_colored_emoji r g b = Inr WHITE_LARGE_SQUARE"
    by (simp add: get_colored_emoji_def color_emojis_lookup)
  have hue: "\<not> (of_int (r + g + b) :: rat) / 3 < 30 \<and> \<not> (of_int (r + g + b) :: rat) / 3 > 225 \<longrightarrow>
          (g \<le> r \<and> b \<le> r \<longrightarrow>
             get_colored_emoji r g b =
               (if g > 150 \<and> r > 200 then Inr LARGE_YELLOW_SQUARE
                else if g > 100 then Inr LARGE_ORANGE_SQUARE
                else Inr LARGE_RED_SQUARE))
        \<and> (\<not> (g \<le> r \<and> b \<le> r) \<and> r \<le> g \<and> b \<le> g \<longrightarrow>
             get_colored_emoji r g b = Inr LARGE_GREEN_SQUARE)
        \<and> (\<not> (g \<le> r \<and> b \<le> r) \<and> \<not> (r \<le> g \<and> b \<le> g) \<longrightarrow>
             r < b \<and> g < b \<and>
             get_colored_emoji r g b =
               (if r > 150 then Inr LARGE_PURPLE_SQUARE else Inr LARGE_BLUE_SQUARE))"
    unfolding mean_below mean_above
    by (auto simp: get_colored_emoji_def color_emojis_lookup mean_below mean_above Let_def
        max_def)
  from dark light hue samples show ?thesis
    by (intro conjI)
qed

theorem get_colored_emoji_decision_witness:
  "(0::int) \<le> 160 \<and> (160::int) \<le> 255 \<and> (0::int) \<le> 0 \<and> (0::int) \<le> 255
   \<and> (0::int) \<le> 200 \<and> (200::int) \<le> 255
   \<and> \<not> (of_int (160 + 0 + 200) :: rat) / 3 < 30 \<and> \<not> (of_int (160 + 0 + 200) :: rat) / 3 > 225
   \<and> \<not> ((0::int) \<le> 160 \<and> (200::int) \<le> 160) \<and> \<not> ((160::int) \<le> 0 \<and> (200::int) \<le> 0)
   \<and> get_colored_emoji 160 0 200 = Inr LARGE_PURPLE_SQUARE
   \<and> get_colored_emoji 10 10 10 = Inr BLACK_LARGE_SQUARE
   \<and> get_colored_emoji 220 180 10 = Inr LARGE_YELLOW_SQUARE"
  using get_colored_emoji_decision [of 160 0 200] by simp


section \<open>Properties of the colour formatter\<close>

lemma brightness_gray: "RGB_brightness \<lparr>rgb_r = k, rgb_g = k, rgb_b = k\<rparr> = of_int k"
  by (simp add: RGB_brightness_def)

text \<open>Under \<^verbatim>\<open>ColorMode.HTML\<close> the glyph is escaped as the specification asks, once: the
  entity that replaces \<open>&\<close> is not looked at again.\<close>

lemma format_character_html:
  \<open>format_character \<lparr>mode = HTML\<rparr> char (Some c)
     = ''<span style="color:'' @ to_html c @ ''">'' @ spec_html_escape char @ ''</span>''\<close>
  by (simp add: format_character_def spec_html_escape_def)

text \<open>Under \<^verbatim>\<open>ColorMode.HTML_BG\<close> only the space is replaced.\<close>

lemma format_character_html_bg:
  \<open>format_character \<lparr>mode = HTML_BG\<rparr> char (Some c)
     = ''<span style="background:'' @ to_html c @ '';color:''
         @ (if RGB_brightness c < 128 then ''#ffffff'' else ''#000000'') @ ''">''
         @ (if char = '' '' then ''&nbsp;'' else char) @ ''</span>''\<close>
  by (simp add: format_character_def)

text \<open>
  Claim C4. Under both HTML modes each of the five reserved characters \<open><\<close>, \<open>>\<close>, \<open>&\<close>,
  the double quote and the space is escaped once before it is wrapped in the span. The
  code does so under \<^verbatim>\<open>ColorMode.HTML\<close>; under \<^verbatim>\<open>ColorMode.HTML_BG\<close> it escapes the space
  only, and \<open><\<close>, \<open>>\<close>, \<open>&\<close> and the double quote reach the markup as they are. The theorem
  evaluates both modes at the glyph \<open><\<close> on a black cell.
\<close>

theorem format_character_html_bg_unescaped:
  \<open>format_character \<lparr>mode = HTML_BG\<rparr> ''<'' (Some \<lparr>rgb_r = 0, rgb_g = 0, rgb_b = 0\<rparr>)
     = ''<span style="background:#000000;color:#ffffff"><</span>''
   \<and> format_character \<lparr>mode = HTML\<rparr> ''<'' (Some \<lparr>rgb_r = 0, rgb_g = 0, rgb_b = 0\<rparr>)
     = ''<span style="color:#000000">&lt;</span>''
   \<and> spec_html_escape ''<'' = ''&lt;''\<close>
  by code_simp

text \<open>The same for the other three characters the background mode leaves alone.\<close>

lemma format_character_html_bg_reserved:
  assumes "char = ''<'' \<or> char = ''>'' \<or> char = ''&'' \<or> char = [CHR 0x22]"
  shows \<open>format_character \<lparr>mode = HTML_BG\<rparr> char (Some c)
     = ''<span style="background:'' @ to_html c @ '';color:''
         @ (if RGB_brightness c < 128 then ''#ffffff'' else ''#000000'') @ ''">'' @ char @ ''</span>''\<close>
    and "spec_html_escape char \<noteq> char"
  using assms by (auto simp: format_character_html_bg spec_html_escape_def)




section \<open>Properties of the preprocessing pipeline\<close>

lemma max_py_int: "max 1 (py_int x) = max 1 \<lfloor>x\<rfloor>"
proof (cases "0 \<le> x")
  case True
  then show ?thesis by (simp add: py_int_def)
next
  case False
  then have "x < 0" by simp
  then have "\<lceil>x\<rceil> \<le> 0" and "\<lfloor>x\<rfloor> \<le> 0"
    by (simp_all add: ceiling_le_iff floor_le_iff)
  with False show ?thesis by (simp add: py_int_def max_def)
qed

lemma resize_result:
  assumes "maintain \<longrightarrow> fst (img_size (processed_image p)) \<noteq> 0"
  shows "resize p w h maintain a =
    Inr (p\<lparr>processed_image := pil_resize (processed_image p)
      (max 1 w,
       if maintain then max 1 \<lfloor>of_int w * ((of_int (snd (img_size (processed_image p))) :: rat)
                                  / of_int (fst (img_size (processed_image p)))) * a\<rfloor>
       else (case h of None \<Rightarrow> max 1 w | Some k \<Rightarrow> max 1 k))\<rparr>)"
  using assms
  by (cases "img_size (processed_image p)")
    (simp add: resize_def Let_def max_py_int split: option.splits)

lemma apply_preprocessing_result:
  assumes rgb: "img_mode (processed_image p) = Mode_RGB"
    and ok: "height s = None \<longrightarrow> fst (img_size (processed_image p)) \<noteq> 0"
  shows "apply_preprocessing s p =
    Inr (p\<lparr>processed_image :=
      \<lparr>img_size = target_size s (img_size (processed_image p)),
       img_mode = (if use_emoji s then Mode_RGB else Mode_L),
       img_ops = img_ops (processed_image p) @ enhancement_ops s
         @ [Resized (fst (target_size s (img_size (processed_image p))))
              (snd (target_size s (img_size (processed_image p))))]
         @ final_ops s\<rparr>\<rparr>)"
proof -
  define p1 where "p1 = (if denoise s then ImageProcessor_denoise p else p)"
  define p2 where "p2 = (if contrast s \<noteq> 1 then adjust_contrast p1 (contrast s) else p1)"
  define p3 where "p3 = (if brightness s \<noteq> 1 then adjust_brightness p2 (brightness s) else p2)"
  define p4 where "p4 = (if auto_enhance s then ImageProcessor_auto_enhance p3 else p3)"
  define p5 where "p5 = (if sharpen s \<noteq> 1 then ImageProcessor_sharpen p4 (sharpen s) else p4)"
  have p5: "p5 = p\<lparr>processed_image := (processed_image p)\<lparr>img_ops :=
      img_ops (processed_image p) @ enhancement_ops s\<rparr>\<rparr>"
    by (simp add: p5_def p4_def p3_def p2_def p1_def enhancement_ops_def pil_apply_def
        ImageProcessor_denoise_def adjust_contrast_def adjust_brightness_def
        ImageProcessor_auto_enhance_def ImageProcessor_sharpen_def)
  have size5: "img_size (processed_image p5) = img_size (processed_image p)"
    by (simp add: p5)
  have "(height s = None) \<longrightarrow> fst (img_size (processed_image p5)) \<noteq> 0"
    using ok by (simp add: size5)
  note r = resize_result [OF this, of "width s" "height s" "if use_emoji s then 1 else 1 / 2"]
  have tgt: "(max 1 (width s),
       if height s = None
       then max 1 \<lfloor>of_int (width s) * ((of_int (snd (img_size (processed_image p))) :: rat)
              / of_int (fst (img_size (processed_image p)))) * (if use_emoji s then 1 else 1 / 2)\<rfloor>
       else (case height s of None \<Rightarrow> max 1 (width s) | Some k \<Rightarrow> max 1 k))
     = target_size s (img_size (processed_image p))"
    by (simp add: target_size_def split: option.splits)
  have r6: "resize p5 (width s) (height s) (height s = None) (if use_emoji s then 1 else 1 / 2)
      = Inr (p5\<lparr>processed_image := pil_resize (processed_image p5)
          (target_size s (img_size (processed_image p)))\<rparr>)"
    using r by (simp only: size5 tgt)
  have "apply_preprocessing s p =
      (case resize p5 (width s) (height s) (height s = None) (if use_emoji s then 1 else 1 / 2) of
         Inl e \<Rightarrow> Inl e
       | Inr p6 \<Rightarrow>
           Inr (if edge_detection s \<and> \<not> use_emoji s then ImageProcessor_edge_detection p6
                else if \<not> use_emoji s then to_grayscale p6 else p6))"
    by (simp add: apply_preprocessing_def Let_def p5_def p4_def p3_def p2_def p1_def)
  then show ?thesis
    unfolding r6
    by (simp add: p5 rgb pil_resize_def ImageProcessor_edge_detection_def to_grayscale_def
        pil_convert_L_def final_ops_def)
qed


lemma init_result:
  assumes "ImageProcessor_init f = Inr p"
  shows "p = \<lparr>original_image = \<lparr>img_size = file_size f, img_mode = Mode_RGB, img_ops = []\<rparr>,
              processed_image = \<lparr>img_size = file_size f, img_mode = Mode_RGB, img_ops = []\<rparr>\<rparr>"
    and "file_exists f" and "lower (file_suffix f) \<in> set SUPPORTED_FORMATS"
  using assms
  by (auto simp: ImageProcessor_init_def validate_image_def Let_def split: sum.splits if_splits)

lemma init_png: "ImageProcessor_init (png_file w h) =
    Inr \<lparr>original_image = \<lparr>img_size = (w, h), img_mode = Mode_RGB, img_ops = []\<rparr>,
         processed_image = \<lparr>img_size = (w, h), img_mode = Mode_RGB, img_ops = []\<rparr>\<rparr>"
  by (simp add: ImageProcessor_init_def validate_image_def png_file_def lower_def lower_char_def
      SUPPORTED_FORMATS_def Let_def)

lemma resize_original:
  "resize p w h m a = Inr q \<Longrightarrow> original_image q = original_image p"
  by (auto simp: resize_def Let_def split: prod.splits if_splits option.splits)

lemma apply_preprocessing_original:
  assumes "apply_preprocessing s p = Inr q"
  shows "original_image q = original_image p"
proof -
  define p5 where "p5 =
    (let p1 = (if denoise s then ImageProcessor_denoise p else p);
         p2 = (if contrast s \<noteq> 1 then adjust_contrast p1 (contrast s) else p1);
         p3 = (if brightness s \<noteq> 1 then adjust_brightness p2 (brightness s) else p2);
         p4 = (if auto_enhance s then ImageProcessor_auto_enhance p3 else p3)
     in if sharpen s \<noteq> 1 then ImageProcessor_sharpen p4 (sharpen s) else p4)"
  have o5: "original_image p5 = original_image p"
    by (simp add: p5_def Let_def ImageProcessor_denoise_def adjust_contrast_def
        adjust_brightness_def ImageProcessor_auto_enhance_def ImageProcessor_sharpen_def)
  from assms obtain p6 where
    r: "resize p5 (width s) (height s) (height s = None) (if use_emoji s then 1 else 1 / 2) = Inr p6"
    and q: "q = (if edge_detection s \<and> \<not> use_emoji s then ImageProcessor_edge_detection p6
                 else if \<not> use_emoji s then to_grayscale p6 else p6)"
    by (auto simp: apply_preprocessing_def Let_def p5_def split: sum.splits)
  have "original_image q = original_image p6"
    by (simp add: q ImageProcessor_edge_detection_def to_grayscale_def)
  with resize_original [OF r] o5 show ?thesis
    by simp
qed




text \<open>
  Claim C8. For every configuration the pipeline applies to the working image, in this
  order: denoise if its flag is set, contrast if its factor is not 1.0, brightness if its
  factor is not 1.0, auto-enhance if its flag is set, sharpen if its factor is not 1.0,
  the resize, and then, outside emoji mode, exactly one of edge detection (flag set) or
  grayscale conversion (flag not set); in emoji mode neither.
\<close>

theorem apply_preprocessing_order:
  assumes init: "ImageProcessor_init f = Inr p"
    and loaded: "height s = None \<longrightarrow> fst (file_size f) \<noteq> 0"
  shows "\<exists>q. apply_preprocessing s p = Inr q
    \<and> img_ops (processed_image q) =
        (if denoise s then [Denoised] else [])
        @ (if contrast s \<noteq> 1 then [Contrast (contrast s)] else [])
        @ (if brightness s \<noteq> 1 then [Brightness (brightness s)] else [])
        @ (if auto_enhance s then [Autocontrast] else [])
        @ (if sharpen s \<noteq> 1 then [Sharpness (sharpen s)] else [])
        @ [Resized (fst (ImageProcessor_size q)) (snd (ImageProcessor_size q))]
        @ (if use_emoji s then [] else if edge_detection s then [Edge_map] else [Grayscale])"
proof -
  from init_result(1) [OF init]
  have rgb: "img_mode (processed_image p) = Mode_RGB"
    and sz: "img_size (processed_image p) = file_size f"
    and ops: "img_ops (processed_image p) = []"
    by simp_all
  from loaded have "height s = None \<longrightarrow> fst (img_size (processed_image p)) \<noteq> 0"
    by (simp add: sz)
  from apply_preprocessing_result [OF rgb this] show ?thesis
    by (simp add: ImageProcessor_size_def ops enhancement_ops_def final_ops_def)
qed

theorem apply_preprocessing_order_witness:
  "ImageProcessor_init (png_file 200 150)
     = Inr \<lparr>original_image = \<lparr>img_size = (200, 150), img_mode = Mode_RGB, img_ops = []\<rparr>,
            processed_image = \<lparr>img_size = (200, 150), img_mode = Mode_RGB, img_ops = []\<rparr>\<rparr>
   \<and> fst (file_size (png_file 200 150)) \<noteq> 0
   \<and> (\<exists>q. apply_preprocessing
              (ConversionSettings_default\<lparr>height := Some 40, brightness := 3 / 2,
                 auto_enhance := True, edge_detection := True\<rparr>)
              \<lparr>original_image = \<lparr>img_size = (200, 150), img_mode = Mode_RGB, img_ops = []\<rparr>,
               processed_image = \<lparr>img_size = (200, 150), img_mode = Mode_RGB, img_ops = []\<rparr>\<rparr>
            = Inr q
          \<and> img_ops (processed_image q) =
              [Denoised, Contrast (12 / 10), Brightness (3 / 2), Autocontrast,
               Resized (fst (ImageProcessor_size q)) (snd (ImageProcessor_size q)), Edge_map])"
proof -
  have nz: "height (ConversionSettings_default\<lparr>height := Some 40, brightness := 3 / 2,
                 auto_enhance := True, edge_detection := True\<rparr>) = None
      \<longrightarrow> fst (file_size (png_file 200 150)) \<noteq> 0"
    by simp
  from apply_preprocessing_order [OF init_png nz] init_png [of 200 150] show ?thesis
    by (simp add: ConversionSettings_default_def png_file_def)
qed

text \<open>
  Claim C9. The colour matrix is sampled from the original image resized to the size of
  the working image: the image it reads carries the resize and none of the operations
  of the pipeline. It is the only colour matrix the generation uses, and it is there
  exactly when the colour mode is not \<^verbatim>\<open>NONE\<close> or colour-driven emoji is set. It has as
  many rows as the intensity matrix, its rows are as long, and every channel lies in
  \<open>[0, 255]\<close>.
\<close>

theorem color_matrix_from_original:
  assumes init: "ImageProcessor_init f = Inr p0"
    and pre: "apply_preprocessing s p0 = Inr p"
  shows "get_color_matrix ps p
      = np_array_RGB ps \<lparr>img_size = ImageProcessor_size p, img_mode = Mode_RGB,
          img_ops = [Resized (fst (ImageProcessor_size p)) (snd (ImageProcessor_size p))]\<rparr>
    \<and> generate_ascii ps s p
      = render_lines s
          (CharacterMapper_init (charset s) (if use_emoji s then Some (emoji_set s) else None)
             (use_emoji s))
          (ColorHandler_init (color_mode s)) (get_pixel_matrix ps p)
          (if color_mode s \<noteq> NONE \<or> color_emoji s then Some (get_color_matrix ps p) else None)
    \<and> length (get_color_matrix ps p) = length (get_pixel_matrix ps p)
    \<and> length (get_pixel_matrix ps p) = nat (snd (ImageProcessor_size p))
    \<and> (\<forall>y < length (get_pixel_matrix ps p).
          length (get_color_matrix ps p ! y) = nat (fst (ImageProcessor_size p))
          \<and> length (get_pixel_matrix ps p ! y) = nat (fst (ImageProcessor_size p)))
    \<and> (\<forall>row \<in> set (get_color_matrix ps p). \<forall>c \<in> set row.
          0 \<le> rgb_r (RGB_of_cell c) \<and> rgb_r (RGB_of_cell c) \<le> 255
          \<and> 0 \<le> rgb_g (RGB_of_cell c) \<and> rgb_g (RGB_of_cell c) \<le> 255
          \<and> 0 \<le> rgb_b (RGB_of_cell c) \<and> rgb_b (RGB_of_cell c) \<le> 255)"
proof -
  have "original_image p = original_image p0"
    using pre by (rule apply_preprocessing_original)
  with init_result(1) [OF init]
  have orig: "original_image p = \<lparr>img_size = file_size f, img_mode = Mode_RGB, img_ops = []\<rparr>"
    by simp
  have sampled: "get_color_matrix ps p
      = np_array_RGB ps \<lparr>img_size = ImageProcessor_size p, img_mode = Mode_RGB,
          img_ops = [Resized (fst (ImageProcessor_size p)) (snd (ImageProcessor_size p))]\<rparr>"
    by (simp add: get_color_matrix_def Let_def orig pil_convert_RGB_def pil_resize_def
        ImageProcessor_size_def)
  have used: "generate_ascii ps s p
      = render_lines s
          (CharacterMapper_init (charset s) (if use_emoji s then Some (emoji_set s) else None)
             (use_emoji s))
          (ColorHandler_init (color_mode s)) (get_pixel_matrix ps p)
          (if color_mode s \<noteq> NONE \<or> color_emoji s then Some (get_color_matrix ps p) else None)"
    by (simp add: generate_ascii_def Let_def)
  have rows_c: "length (get_color_matrix ps p) = nat (snd (ImageProcessor_size p))"
    by (simp add: sampled np_array_RGB_def)
  have rows_g: "length (get_pixel_matrix ps p) = nat (snd (ImageProcessor_size p))"
    by (simp add: get_pixel_matrix_def np_array_L_def pil_convert_L_def ImageProcessor_size_def)
  have cols: "\<forall>y < length (get_pixel_matrix ps p).
          length (get_color_matrix ps p ! y) = nat (fst (ImageProcessor_size p))
          \<and> length (get_pixel_matrix ps p ! y) = nat (fst (ImageProcessor_size p))"
    unfolding rows_g
    by (simp add: sampled np_array_RGB_def get_pixel_matrix_def np_array_L_def pil_convert_L_def
        ImageProcessor_size_def)
  have channel: "0 \<le> uint w \<and> uint w \<le> 255" for w :: "8 word"
    using uint_lt2p [of w] by simp
  have range: "\<forall>row \<in> set (get_color_matrix ps p). \<forall>c \<in> set row.
          0 \<le> rgb_r (RGB_of_cell c) \<and> rgb_r (RGB_of_cell c) \<le> 255
          \<and> 0 \<le> rgb_g (RGB_of_cell c) \<and> rgb_g (RGB_of_cell c) \<le> 255
          \<and> 0 \<le> rgb_b (RGB_of_cell c) \<and> rgb_b (RGB_of_cell c) \<le> 255"
    using channel by (auto simp: RGB_of_cell_def split: prod.splits)
  from sampled used rows_c rows_g cols range show ?thesis
    by simp
qed

theorem color_matrix_from_original_witness:
  "ImageProcessor_init (png_file 2 1)
     = Inr \<lparr>original_image = \<lparr>img_size = (2, 1), img_mode = Mode_RGB, img_ops = []\<rparr>,
            processed_image = \<lparr>img_size = (2, 1), img_mode = Mode_RGB, img_ops = []\<rparr>\<rparr>
   \<and> apply_preprocessing (ConversionSettings_default\<lparr>width := 3, height := Some 1, color_mode := ANSI\<rparr>)
        \<lparr>original_image = \<lparr>img_size = (2, 1), img_mode = Mode_RGB, img_ops = []\<rparr>,
         processed_image = \<lparr>img_size = (2, 1), img_mode = Mode_RGB, img_ops = []\<rparr>\<rparr>
     = Inr \<lparr>original_image = \<lparr>img_size = (2, 1), img_mode = Mode_RGB, img_ops = []\<rparr>,
            processed_image = \<lparr>img_size = (3, 1), img_mode = Mode_L,
              img_ops = [Denoised, Contrast (12 / 10), Resized 3 1, Grayscale]\<rparr>\<rparr>
   \<and> get_color_matrix black_source
        \<lparr>original_image = \<lparr>img_size = (2, 1), img_mode = Mode_RGB, img_ops = []\<rparr>,
         processed_image = \<lparr>img_size = (3, 1), img_mode = Mode_L,
           img_ops = [Denoised, Contrast (12 / 10), Resized 3 1, Grayscale]\<rparr>\<rparr>
     = np_array_RGB black_source
         \<lparr>img_size = (3, 1), img_mode = Mode_RGB, img_ops = [Resized 3 1]\<rparr>
   \<and> length (get_color_matrix black_source
        \<lparr>original_image = \<lparr>img_size = (2, 1), img_mode = Mode_RGB, img_ops = []\<rparr>,
         processed_image = \<lparr>img_size = (3, 1), img_mode = Mode_L,
           img_ops = [Denoised, Contrast (12 / 10), Resized 3 1, Grayscale]\<rparr>\<rparr>) = 1"
proof -
  let ?s = "ConversionSettings_default\<lparr>width := 3, height := Some 1, color_mode := ANSI\<rparr>"
  let ?d = "\<lparr>img_size = (2, 1), img_mode = Mode_RGB, img_ops = []\<rparr>"
  let ?p = "\<lparr>original_image = ?d, processed_image = \<lparr>img_size = (3, 1), img_mode = Mode_L,
              img_ops = [Denoised, Contrast (12 / 10), Resized 3 1, Grayscale]\<rparr>\<rparr>"
  have tgt: "target_size ?s (2, 1) = (3, 1)"
    by (simp add: target_size_def ConversionSettings_default_def)
  have pre: "apply_preprocessing ?s \<lparr>original_image = ?d, processed_image = ?d\<rparr> = Inr ?p"
    by (subst apply_preprocessing_result)
      (simp_all add: tgt, simp_all add: ConversionSettings_default_def enhancement_ops_def final_ops_def)
  note c9 = color_matrix_from_original [OF init_png pre, of black_source]
  have size: "ImageProcessor_size ?p = (3, 1)"
    by (simp add: ImageProcessor_size_def)
  from c9 [THEN conjunct1] have sampled: "get_color_matrix black_source ?p
      = np_array_RGB black_source \<lparr>img_size = (3, 1), img_mode = Mode_RGB, img_ops = [Resized 3 1]\<rparr>"
    unfolding size by simp
  from c9 [THEN conjunct2, THEN conjunct2]
  have "length (get_color_matrix black_source ?p) = nat (snd (ImageProcessor_size ?p))"
    by simp
  then have rows: "length (get_color_matrix black_source ?p) = 1"
    unfolding size by simp
  from init_png [of 2 1] pre sampled rows show ?thesis
    by (intro conjI)
qed


section \<open>Properties of the conversion\<close>

lemma for_each_total:
  assumes "\<And>x. x \<in> set xs \<Longrightarrow> \<exists>v. f x = Inr v"
  shows "\<exists>vs. for_each f xs = Inr vs \<and> length vs = length xs"
  using assms
proof (induction xs)
  case Nil
  show ?case by simp
next
  case (Cons x xs)
  from Cons.prems obtain v where v: "f x = Inr v"
    by auto
  from Cons obtain vs where vs: "for_each f xs = Inr vs" "length vs = length xs"
    by auto
  from v vs show ?case
    by simp
qed

lemma get_character_total:
  assumes "characters m \<noteq> []" and "num_chars m = int (length (characters m))"
  shows "\<exists>c. get_character m b = Inr c"
proof -
  define j where "j = py_int (max 0 (min 255 b) / 255 * of_int (num_chars m - 1) + 1 / 2)"
  define i where "i = max 0 (min j (num_chars m - 1))"
  from assms have "1 \<le> num_chars m"
    by (cases "characters m") simp_all
  then have "0 \<le> i" and "i < num_chars m"
    unfolding i_def by linarith+
  then have "getitem (characters m) i = Inr (characters m ! nat i)"
    using assms(2) by (intro getitem_in_range) simp_all
  then show ?thesis
    by (simp add: get_character_def Let_def i_def j_def)
qed

lemma get_colored_emoji_total: "\<exists>c. get_colored_emoji r g b = Inr c"
  by (simp add: get_colored_emoji_def Let_def color_emojis_lookup)

lemma cell_at_in_range:
  "y < length m \<Longrightarrow> x < length (m ! y) \<Longrightarrow> cell_at m y x = Inr (m ! y ! x)"
  by (simp add: cell_at_def)

lemma generate_cell_total:
  assumes mapper: "characters mp \<noteq> []" "num_chars mp = int (length (characters mp))"
    and gray: "y < length gm" "x < length (gm ! y)"
    and color: "\<And>cm. cmo = Some cm \<Longrightarrow> y < length cm \<and> x < length (cm ! y)"
  shows "\<exists>t. generate_cell s mp ch gm cmo y x = Inr t"
proof -
  obtain a where a: "get_character mp (of_nat (unat (gm ! y ! x))) = Inr a"
    using get_character_total [OF mapper] by blast
  obtain b where b: "get_inverted_character mp (of_nat (unat (gm ! y ! x))) = Inr b"
    using get_character_total [OF mapper] unfolding get_inverted_character_def by blast
  show ?thesis
  proof (cases cmo)
    case None
    with a b show ?thesis
      by (simp add: generate_cell_def cell_at_in_range [OF gray] Let_def)
  next
    case (Some cm)
    with color have "cell_at cm y x = Inr (cm ! y ! x)"
      by (simp add: cell_at_in_range)
    moreover obtain e where "get_colored_emoji (rgb_r (RGB_of_cell (cm ! y ! x)))
        (rgb_g (RGB_of_cell (cm ! y ! x))) (rgb_b (RGB_of_cell (cm ! y ! x))) = Inr e"
      using get_colored_emoji_total by blast
    ultimately show ?thesis
      using a b Some by (simp add: generate_cell_def cell_at_in_range [OF gray] Let_def)
  qed
qed

lemma render_lines_total:
  assumes mapper: "characters mp \<noteq> []" "num_chars mp = int (length (characters mp))"
    and gray: "\<And>y. y < length gm \<Longrightarrow> length (gm ! y) = w"
    and color: "\<And>cm. cmo = Some cm \<Longrightarrow> length cm = length gm \<and> (\<forall>y < length gm. length (cm ! y) = w)"
  shows "\<exists>ls. render_lines s mp ch gm cmo = Inr ls"
proof -
  define cols where "cols = (case gm of [] \<Rightarrow> 0 | row # _ \<Rightarrow> length row)"
  have cols_le: "cols \<le> w" if "y < length gm" for y
  proof (cases gm)
    case Nil
    then show ?thesis by (simp add: cols_def)
  next
    case (Cons row rest)
    then have "length (gm ! 0) = w"
      using gray [of 0] by simp
    with Cons show ?thesis
      by (simp add: cols_def)
  qed
  define row where "row = (\<lambda>y. case for_each (generate_cell s mp ch gm cmo y) [0..<cols] of
                   Inl e \<Rightarrow> Inl e
                 | Inr line_chars \<Rightarrow>
                     (let line = concat line_chars
                      in Inr (if color_mode s = HTML \<or> color_mode s = HTML_BG
                              then format_line ch line else line)))"
  have row_ok: "\<exists>l. row y = Inr l" if y: "y \<in> set [0..<length gm]" for y
  proof -
    from y have yl: "y < length gm"
      by simp
    have "\<exists>t. generate_cell s mp ch gm cmo y x = Inr t" if "x \<in> set [0..<cols]" for x
    proof (rule generate_cell_total [OF mapper yl])
      from that cols_le [OF yl] gray [OF yl] show "x < length (gm ! y)"
        by simp
    next
      fix cm
      assume "cmo = Some cm"
      from color [OF this] yl that cols_le [OF yl]
      show "y < length cm \<and> x < length (cm ! y)"
        by simp
    qed
    then obtain cs where "for_each (generate_cell s mp ch gm cmo y) [0..<cols] = Inr cs"
      using for_each_total [of "[0..<cols]" "generate_cell s mp ch gm cmo y"] by blast
    then show ?thesis
      by (simp add: row_def Let_def)
  qed
  have "\<exists>ls. for_each row [0..<length gm] = Inr ls"
    using for_each_total [of "[0..<length gm]" row] row_ok by blast
  then show ?thesis
    by (simp add: render_lines_def Let_def cols_def row_def)
qed

lemma generate_ascii_total: "\<exists>ls. generate_ascii ps s p = Inr ls"
proof -
  let ?mp = "CharacterMapper_init (charset s) (if use_emoji s then Some (emoji_set s) else None)
    (use_emoji s)"
  let ?w = "nat (fst (img_size (processed_image p)))"
  have gm: "length (get_pixel_matrix ps p ! y) = ?w" if "y < length (get_pixel_matrix ps p)" for y
    using that by (simp add: get_pixel_matrix_def np_array_L_def pil_convert_L_def split: if_splits)
  have rows: "length (get_color_matrix ps p) = length (get_pixel_matrix ps p)"
    by (simp add: get_color_matrix_def get_pixel_matrix_def np_array_RGB_def np_array_L_def
        pil_convert_L_def pil_resize_def Let_def)
  have cm: "length (get_color_matrix ps p ! y) = ?w" if "y < length (get_pixel_matrix ps p)" for y
    using that
    by (simp add: get_color_matrix_def get_pixel_matrix_def np_array_RGB_def np_array_L_def
        pil_convert_L_def pil_resize_def Let_def split: if_splits)
  have "\<exists>ls. render_lines s ?mp (ColorHandler_init (color_mode s)) (get_pixel_matrix ps p)
      (if color_mode s \<noteq> NONE \<or> color_emoji s then Some (get_color_matrix ps p) else None) = Inr ls"
    by (rule render_lines_total [where w = ?w, OF init_characters_nonempty init_num_chars gm])
      (auto simp: rows cm split: if_splits)
  then show ?thesis
    by (simp add: generate_ascii_def Let_def)
qed

text \<open>A conversion of a file that loads returns an artifact, whatever the width.\<close>

lemma convert_returns:
  assumes loads: "file_exists f" "lower (file_suffix f) \<in> set SUPPORTED_FORMATS"
    and dims: "fst (file_size f) \<noteq> 0"
    and names: "resolve_names kw0 = Inr kw"
  shows "\<exists>a. convert ps f s0 kw0
      = (override kw (case s0 of None \<Rightarrow> ConversionSettings_default | Some s \<Rightarrow> s), Inr a)
    \<and> art_width a = max 1 (width (override kw (case s0 of None \<Rightarrow> ConversionSettings_default | Some s \<Rightarrow> s)))
    \<and> 1 \<le> art_height a
    \<and> art_settings a = override kw (case s0 of None \<Rightarrow> ConversionSettings_default | Some s \<Rightarrow> s)"
proof -
  define st where "st = override kw (case s0 of None \<Rightarrow> ConversionSettings_default | Some s \<Rightarrow> s)"
  define d where "d = \<lparr>img_size = file_size f, img_mode = Mode_RGB, img_ops = []\<rparr>"
  define p0 where "p0 = \<lparr>original_image = d, processed_image = d\<rparr>"
  have init: "ImageProcessor_init f = Inr p0"
    using loads by (simp add: ImageProcessor_init_def validate_image_def Let_def p0_def d_def)
  have "img_mode (processed_image p0) = Mode_RGB"
    and "height st = None \<longrightarrow> fst (img_size (processed_image p0)) \<noteq> 0"
    using dims by (simp_all add: p0_def d_def)
  from apply_preprocessing_result [OF this]
  obtain p where pre: "apply_preprocessing st p0 = Inr p"
    and size: "img_size (processed_image p) = target_size st (file_size f)"
    by (simp add: p0_def d_def)
  obtain ls where gen: "generate_ascii ps st p = Inr ls"
    using generate_ascii_total by blast
  have w: "fst (target_size st (file_size f)) = max 1 (width st)"
    by (simp add: target_size_def)
  have h: "1 \<le> snd (target_size st (file_size f))"
    by (simp add: target_size_def split: option.splits)
  show ?thesis
    unfolding st_def [symmetric]
    using w h
    by (simp add: convert_def Let_def names st_def [symmetric] init pre gen
        ImageProcessor_size_def size)
qed


lemma resolve_names_none: "resolve_names no_kwargs = Inr no_kwargs"
  by (simp add: resolve_names_def no_kwargs_def)

lemma override_none: "override no_kwargs s = s"
  by (simp add: override_def no_kwargs_def setattr_opt_def enum_of_def)

lemma convert_settings:
  "fst (convert ps f s0 kw0) =
     (case resolve_names kw0 of
        Inl e \<Rightarrow> (case s0 of None \<Rightarrow> ConversionSettings_default | Some s \<Rightarrow> s)
      | Inr kw \<Rightarrow> override kw (case s0 of None \<Rightarrow> ConversionSettings_default | Some s \<Rightarrow> s))"
  by (simp add: convert_def Let_def split: sum.splits)

lemma resolve_names_shape:
  assumes "resolve_names kw0 = Inr kw"
  shows "\<exists>a b c. kw = kw0\<lparr>kw_charset := a, kw_emoji_set := b, kw_color_mode := c\<rparr>"
proof -
  define kw1 where "kw1 = (case kw_charset kw0 of
                   Some (Inl name) \<Rightarrow> kw0\<lparr>kw_charset := Some (Inr (get_charset_by_name name))\<rparr>
                 | _ \<Rightarrow> kw0)"
  define kw2 where "kw2 = (case kw_emoji_set kw1 of
                   Some (Inl name) \<Rightarrow> kw1\<lparr>kw_emoji_set := Some (Inr (get_emoji_set_by_name name))\<rparr>
                 | _ \<Rightarrow> kw1)"
  have s1: "\<exists>a. kw1 = kw0\<lparr>kw_charset := a\<rparr>"
  proof (cases "kw_charset kw0")
    case None
    then have "kw1 = kw0\<lparr>kw_charset := kw_charset kw0\<rparr>"
      by (simp add: kw1_def)
    then show ?thesis ..
  next
    case (Some v)
    show ?thesis
    proof (cases v)
      case (Inl name)
      with Some have "kw1 = kw0\<lparr>kw_charset := Some (Inr (get_charset_by_name name))\<rparr>"
        by (simp add: kw1_def)
      then show ?thesis ..
    next
      case (Inr c)
      with Some have "kw1 = kw0\<lparr>kw_charset := kw_charset kw0\<rparr>"
        by (simp add: kw1_def)
      then show ?thesis ..
    qed
  qed
  have s2: "\<exists>b. kw2 = kw1\<lparr>kw_emoji_set := b\<rparr>"
  proof (cases "kw_emoji_set kw1")
    case None
    then have "kw2 = kw1\<lparr>kw_emoji_set := kw_emoji_set kw1\<rparr>"
      by (simp add: kw2_def)
    then show ?thesis ..
  next
    case (Some v)
    show ?thesis
    proof (cases v)
      case (Inl name)
      with Some have "kw2 = kw1\<lparr>kw_emoji_set := Some (Inr (get_emoji_set_by_name name))\<rparr>"
        by (simp add: kw2_def)
      then show ?thesis ..
    next
      case (Inr c)
      with Some have "kw2 = kw1\<lparr>kw_emoji_set := kw_emoji_set kw1\<rparr>"
        by (simp add: kw2_def)
      then show ?thesis ..
    qed
  qed
  have r: "resolve_names kw0 =
      (case kw_color_mode kw2 of
           Some (Inl v) \<Rightarrow>
             (case ColorMode_of_value v of
                Inl e \<Rightarrow> Inl e
              | Inr m \<Rightarrow> Inr (kw2\<lparr>kw_color_mode := Some (Inr m)\<rparr>))
         | _ \<Rightarrow> Inr kw2)"
    unfolding resolve_names_def Let_def kw1_def kw2_def by (rule refl)
  have s3: "\<exists>c. kw = kw2\<lparr>kw_color_mode := c\<rparr>"
  proof (cases "kw_color_mode kw2")
    case None
    with r assms have "kw = kw2\<lparr>kw_color_mode := kw_color_mode kw2\<rparr>"
      by simp
    then show ?thesis ..
  next
    case (Some v)
    show ?thesis
    proof (cases v)
      case (Inl name)
      with Some r assms obtain m where "kw = kw2\<lparr>kw_color_mode := Some (Inr m)\<rparr>"
        by (auto split: sum.splits)
      then show ?thesis ..
    next
      case (Inr c)
      with Some r assms have "kw = kw2\<lparr>kw_color_mode := kw_color_mode kw2\<rparr>"
        by simp
      then show ?thesis ..
    qed
  qed
  from s1 s2 s3 obtain a b c where
    "kw = kw0\<lparr>kw_charset := a\<rparr>\<lparr>kw_emoji_set := b\<rparr>\<lparr>kw_color_mode := c\<rparr>"
    by auto
  then have "kw = kw0\<lparr>kw_charset := a, kw_emoji_set := b, kw_color_mode := c\<rparr>"
    by simp
  then show ?thesis
    by blast
qed

lemma resolve_names_fields:
  assumes "resolve_names kw0 = Inr kw"
  shows "kw_width kw = kw_width kw0" and "kw_height kw = kw_height kw0"
    and "kw_invert kw = kw_invert kw0" and "kw_contrast kw = kw_contrast kw0"
    and "kw_brightness kw = kw_brightness kw0" and "kw_edge_detection kw = kw_edge_detection kw0"
    and "kw_denoise kw = kw_denoise kw0" and "kw_use_emoji kw = kw_use_emoji kw0"
    and "kw_color_emoji kw = kw_color_emoji kw0" and "kw_dithering kw = kw_dithering kw0"
    and "kw_sharpen kw = kw_sharpen kw0" and "kw_auto_enhance kw = kw_auto_enhance kw0"
proof -
  from resolve_names_shape [OF assms] obtain a b c where
    kw: "kw = kw0\<lparr>kw_charset := a, kw_emoji_set := b, kw_color_mode := c\<rparr>"
    by blast
  show "kw_width kw = kw_width kw0" and "kw_height kw = kw_height kw0"
    and "kw_invert kw = kw_invert kw0" and "kw_contrast kw = kw_contrast kw0"
    and "kw_brightness kw = kw_brightness kw0" and "kw_edge_detection kw = kw_edge_detection kw0"
    and "kw_denoise kw = kw_denoise kw0" and "kw_use_emoji kw = kw_use_emoji kw0"
    and "kw_color_emoji kw = kw_color_emoji kw0" and "kw_dithering kw = kw_dithering kw0"
    and "kw_sharpen kw = kw_sharpen kw0" and "kw_auto_enhance kw = kw_auto_enhance kw0"
    by (simp_all add: kw)
qed

lemma resolve_names_charset:
  assumes "resolve_names kw0 = Inr kw"
  shows "enum_of (kw_charset kw) =
      (case kw_charset kw0 of None \<Rightarrow> None | Some (Inl name) \<Rightarrow> Some (get_charset_by_name name)
       | Some (Inr c) \<Rightarrow> Some c)"
  using assms
  by (auto simp: resolve_names_def Let_def enum_of_def split: option.splits sum.splits)

lemma resolve_names_emoji_set:
  assumes "resolve_names kw0 = Inr kw"
  shows "enum_of (kw_emoji_set kw) =
      (case kw_emoji_set kw0 of None \<Rightarrow> None | Some (Inl name) \<Rightarrow> Some (get_emoji_set_by_name name)
       | Some (Inr e) \<Rightarrow> Some e)"
  using assms
  by (auto simp: resolve_names_def Let_def enum_of_def split: option.splits sum.splits)

lemma resolve_names_color_mode:
  assumes "resolve_names kw0 = Inr kw"
  shows "(case enum_of (kw_color_mode kw) of None \<Rightarrow> Inr (color_mode s) | Some m \<Rightarrow> Inr m) =
      (case kw_color_mode kw0 of None \<Rightarrow> Inr (color_mode s) | Some (Inl v) \<Rightarrow> ColorMode_of_value v
       | Some (Inr m) \<Rightarrow> Inr m)"
  using assms
  by (auto simp: resolve_names_def Let_def enum_of_def split: option.splits sum.splits)

lemma setattr_opt_other:
  assumes "\<And>x t. sel (upd x t) = sel t"
  shows "sel (setattr_opt v upd s) = sel s"
  by (cases v) (simp_all add: setattr_opt_def assms)

lemma setattr_opt_same:
  assumes "\<And>x t. sel (upd x t) = x"
  shows "sel (setattr_opt v upd s) = (case v of None \<Rightarrow> sel s | Some x \<Rightarrow> x)"
  by (cases v) (simp_all add: setattr_opt_def assms)

lemma override_fields:
  "width (override kw s) = (case kw_width kw of None \<Rightarrow> width s | Some v \<Rightarrow> v)"
  "height (override kw s) = (case kw_height kw of None \<Rightarrow> height s | Some v \<Rightarrow> v)"
  "charset (override kw s) = (case enum_of (kw_charset kw) of None \<Rightarrow> charset s | Some v \<Rightarrow> v)"
  "color_mode (override kw s) = (case enum_of (kw_color_mode kw) of None \<Rightarrow> color_mode s | Some v \<Rightarrow> v)"
  "invert (override kw s) = (case kw_invert kw of None \<Rightarrow> invert s | Some v \<Rightarrow> v)"
  "contrast (override kw s) = (case kw_contrast kw of None \<Rightarrow> contrast s | Some v \<Rightarrow> v)"
  "brightness (override kw s) = (case kw_brightness kw of None \<Rightarrow> brightness s | Some v \<Rightarrow> v)"
  "edge_detection (override kw s) = (case kw_edge_detection kw of None \<Rightarrow> edge_detection s | Some v \<Rightarrow> v)"
  "denoise (override kw s) = (case kw_denoise kw of None \<Rightarrow> denoise s | Some v \<Rightarrow> v)"
  "use_emoji (override kw s) = (case kw_use_emoji kw of None \<Rightarrow> use_emoji s | Some v \<Rightarrow> v)"
  "emoji_set (override kw s) = (case enum_of (kw_emoji_set kw) of None \<Rightarrow> emoji_set s | Some v \<Rightarrow> v)"
  "color_emoji (override kw s) = (case kw_color_emoji kw of None \<Rightarrow> color_emoji s | Some v \<Rightarrow> v)"
  "dithering (override kw s) = (case kw_dithering kw of None \<Rightarrow> dithering s | Some v \<Rightarrow> v)"
  "sharpen (override kw s) = (case kw_sharpen kw of None \<Rightarrow> sharpen s | Some v \<Rightarrow> v)"
  "auto_enhance (override kw s) = (case kw_auto_enhance kw of None \<Rightarrow> auto_enhance s | Some v \<Rightarrow> v)"
  unfolding override_def comp_def
  by (simp add: setattr_opt_other [of width] setattr_opt_same [of width] cong: option.case_cong,
      simp add: setattr_opt_other [of height] setattr_opt_same [of height] cong: option.case_cong,
      simp add: setattr_opt_other [of charset] setattr_opt_same [of charset] cong: option.case_cong,
      simp add: setattr_opt_other [of color_mode] setattr_opt_same [of color_mode] cong: option.case_cong,
      simp add: setattr_opt_other [of invert] setattr_opt_same [of invert] cong: option.case_cong,
      simp add: setattr_opt_other [of contrast] setattr_opt_same [of contrast] cong: option.case_cong,
      simp add: setattr_opt_other [of brightness] setattr_opt_same [of brightness] cong: option.case_cong,
      simp add: setattr_opt_other [of edge_detection] setattr_opt_same [of edge_detection] cong: option.case_cong,
      simp add: setattr_opt_other [of denoise] setattr_opt_same [of denoise] cong: option.case_cong,
      simp add: setattr_opt_other [of use_emoji] setattr_opt_same [of use_emoji] cong: option.case_cong,
      simp add: setattr_opt_other [of emoji_set] setattr_opt_same [of emoji_set] cong: option.case_cong,
      simp add: setattr_opt_other [of color_emoji] setattr_opt_same [of color_emoji] cong: option.case_cong,
      simp add: setattr_opt_other [of dithering] setattr_opt_same [of dithering] cong: option.case_cong,
      simp add: setattr_opt_other [of sharpen] setattr_opt_same [of sharpen] cong: option.case_cong,
      simp add: setattr_opt_other [of auto_enhance] setattr_opt_same [of auto_enhance] cong: option.case_cong)

text \<open>
  Claim C6, as the code has it. No configuration is rejected for its width: the code has
  no such check and no such error. For a file that loads, a configuration whose width is
  not positive yields an artifact of width 1, the value the resize step clamps to, that
  carries the configuration as given.
\<close>

theorem convert_nonpositive_width:
  assumes loads: "file_exists f" "lower (file_suffix f) \<in> set SUPPORTED_FORMATS"
    and dims: "1 \<le> fst (file_size f)" "1 \<le> snd (file_size f)"
    and names: "resolve_names kw0 = Inr kw"
    and cfg: "cfg = override kw (case s0 of None \<Rightarrow> ConversionSettings_default | Some s \<Rightarrow> s)"
    and nonpos: "width cfg \<le> 0"
  shows "\<exists>a. convert ps f s0 kw0 = (cfg, Inr a)
    \<and> art_width a = 1 \<and> 1 \<le> art_height a \<and> art_settings a = cfg"
proof -
  from dims(1) have "fst (file_size f) \<noteq> 0"
    by simp
  from convert_returns [OF loads this names, of ps s0] nonpos show ?thesis
    unfolding cfg by auto
qed

theorem convert_nonpositive_width_witness:
  "file_exists (png_file 1 1) \<and> lower (file_suffix (png_file 1 1)) \<in> set SUPPORTED_FORMATS
   \<and> 1 \<le> fst (file_size (png_file 1 1)) \<and> 1 \<le> snd (file_size (png_file 1 1))
   \<and> resolve_names no_kwargs = Inr no_kwargs
   \<and> width (ConversionSettings_default\<lparr>width := - 5\<rparr>) \<le> 0
   \<and> (\<exists>a. convert black_source (png_file 1 1) (Some (ConversionSettings_default\<lparr>width := - 5\<rparr>))
             no_kwargs = (ConversionSettings_default\<lparr>width := - 5\<rparr>, Inr a)
          \<and> art_width a = 1 \<and> 1 \<le> art_height a
          \<and> art_settings a = ConversionSettings_default\<lparr>width := - 5\<rparr>)"
proof -
  have f: "file_exists (png_file 1 1)" "lower (file_suffix (png_file 1 1)) \<in> set SUPPORTED_FORMATS"
    "1 \<le> fst (file_size (png_file 1 1))" "1 \<le> snd (file_size (png_file 1 1))"
    by (simp_all add: png_file_def lower_def lower_char_def SUPPORTED_FORMATS_def)
  have c: "ConversionSettings_default\<lparr>width := - 5\<rparr>
      = override no_kwargs (case Some (ConversionSettings_default\<lparr>width := - 5\<rparr>) of
          None \<Rightarrow> ConversionSettings_default | Some s \<Rightarrow> s)"
    by (simp add: override_none)
  have w: "width (ConversionSettings_default\<lparr>width := - 5\<rparr>) \<le> 0"
    by simp
  from convert_nonpositive_width [OF f resolve_names_none c w, of black_source]
    f resolve_names_none w show ?thesis
    by simp
qed

text \<open>
  Claim C6, as stated, fails: width 0 on a one-pixel PNG is converted, and the artifact
  has width 1.
\<close>

theorem convert_zero_width_counterexample:
  "convert black_source (png_file 1 1) (Some (ConversionSettings_default\<lparr>width := 0\<rparr>)) no_kwargs
     = (ConversionSettings_default\<lparr>width := 0\<rparr>,
        Inr \<lparr>art = ''$'', art_width = 1, art_height = 1, colored = False, art_is_emoji = False,
             art_settings = ConversionSettings_default\<lparr>width := 0\<rparr>\<rparr>)"
  by code_simp

text \<open>
  Claim C7, as the code has it. The settings object is the caller's: a call without
  keyword overrides leaves every field as it was, and so does a call whose colour-mode
  name is rejected; a call with overrides assigns each overridden field in the caller's
  object (a table or mode given by name is resolved first) and leaves the other fields
  as they were.
\<close>

theorem convert_settings_after_call:
  "fst (convert ps f (Some s) no_kwargs) = s
   \<and> (\<forall>e. resolve_names kw0 = Inl e \<longrightarrow> fst (convert ps f (Some s) kw0) = s)
   \<and> (\<forall>kw. resolve_names kw0 = Inr kw \<longrightarrow>
        (let after = fst (convert ps f (Some s) kw0) in
           width after = (case kw_width kw0 of None \<Rightarrow> width s | Some v \<Rightarrow> v)
         \<and> height after = (case kw_height kw0 of None \<Rightarrow> height s | Some v \<Rightarrow> v)
         \<and> charset after =
             (case kw_charset kw0 of None \<Rightarrow> charset s
              | Some (Inl name) \<Rightarrow> get_charset_by_name name | Some (Inr v) \<Rightarrow> v)
         \<and> Inr (color_mode after) =
             (case kw_color_mode kw0 of None \<Rightarrow> Inr (color_mode s)
              | Some (Inl name) \<Rightarrow> ColorMode_of_value name | Some (Inr v) \<Rightarrow> Inr v)
         \<and> invert after = (case kw_invert kw0 of None \<Rightarrow> invert s | Some v \<Rightarrow> v)
         \<and> contrast after = (case kw_contrast kw0 of None \<Rightarrow> contrast s | Some v \<Rightarrow> v)
         \<and> brightness after = (case kw_brightness kw0 of None \<Rightarrow> brightness s | Some v \<Rightarrow> v)
         \<and> edge_detection after =
             (case kw_edge_detection kw0 of None \<Rightarrow> edge_detection s | Some v \<Rightarrow> v)
         \<and> denoise after = (case kw_denoise kw0 of None \<Rightarrow> denoise s | Some v \<Rightarrow> v)
         \<and> use_emoji after = (case kw_use_emoji kw0 of None \<Rightarrow> use_emoji s | Some v \<Rightarrow> v)
         \<and> emoji_set after =
             (case kw_emoji_set kw0 of None \<Rightarrow> emoji_set s
              | Some (Inl name) \<Rightarrow> get_emoji_set_by_name name | Some (Inr v) \<Rightarrow> v)
         \<and> color_emoji after = (case kw_color_emoji kw0 of None \<Rightarrow> color_emoji s | Some v \<Rightarrow> v)
         \<and> dithering after = (case kw_dithering kw0 of None \<Rightarrow> dithering s | Some v \<Rightarrow> v)
         \<and> sharpen after = (case kw_sharpen kw0 of None \<Rightarrow> sharpen s | Some v \<Rightarrow> v)
         \<and> auto_enhance after =
             (case kw_auto_enhance kw0 of None \<Rightarrow> auto_enhance s | Some v \<Rightarrow> v)))"
proof (intro conjI allI impI)
  show "fst (convert ps f (Some s) no_kwargs) = s"
    by (simp add: convert_settings resolve_names_none override_none)
next
  fix e
  assume "resolve_names kw0 = Inl e"
  then show "fst (convert ps f (Some s) kw0) = s"
    by (simp add: convert_settings)
next
  fix kw
  assume names: "resolve_names kw0 = Inr kw"
  then have after: "fst (convert ps f (Some s) kw0) = override kw s"
    by (simp add: convert_settings)
  note fields = resolve_names_fields [OF names] resolve_names_charset [OF names]
    resolve_names_emoji_set [OF names]
  have mode: "Inr (color_mode (override kw s)) =
             (case kw_color_mode kw0 of None \<Rightarrow> Inr (color_mode s)
              | Some (Inl name) \<Rightarrow> ColorMode_of_value name | Some (Inr v) \<Rightarrow> Inr v)"
    using resolve_names_color_mode [OF names, of s]
    by (simp add: override_fields(4) split: option.splits)
  show "let after = fst (convert ps f (Some s) kw0) in
           width after = (case kw_width kw0 of None \<Rightarrow> width s | Some v \<Rightarrow> v)
         \<and> height after = (case kw_height kw0 of None \<Rightarrow> height s | Some v \<Rightarrow> v)
         \<and> charset after =
             (case kw_charset kw0 of None \<Rightarrow> charset s
              | Some (Inl name) \<Rightarrow> get_charset_by_name name | Some (Inr v) \<Rightarrow> v)
         \<and> Inr (color_mode after) =
             (case kw_color_mode kw0 of None \<Rightarrow> Inr (color_mode s)
              | Some (Inl name) \<Rightarrow> ColorMode_of_value name | Some (Inr v) \<Rightarrow> Inr v)
         \<and> invert after = (case kw_invert kw0 of None \<Rightarrow> invert s | Some v \<Rightarrow> v)
         \<and> contrast after = (case kw_contrast kw0 of None \<Rightarrow> contrast s | Some v \<Rightarrow> v)
         \<and> brightness after = (case kw_brightness kw0 of None \<Rightarrow> brightness s | Some v \<Rightarrow> v)
         \<and> edge_detection after =
             (case kw_edge_detection kw0 of None \<Rightarrow> edge_detection s | Some v \<Rightarrow> v)
         \<and> denoise after = (case kw_denoise kw0 of None \<Rightarrow> denoise s | Some v \<Rightarrow> v)
         \<and> use_emoji after = (case kw_use_emoji kw0 of None \<Rightarrow> use_emoji s | Some v \<Rightarrow> v)
         \<and> emoji_set after =
             (case kw_emoji_set kw0 of None \<Rightarrow> emoji_set s
              | Some (Inl name) \<Rightarrow> get_emoji_set_by_name name | Some (Inr v) \<Rightarrow> v)
         \<and> color_emoji after = (case kw_color_emoji kw0 of None \<Rightarrow> color_emoji s | Some v \<Rightarrow> v)
         \<and> dithering after = (case kw_dithering kw0 of None \<Rightarrow> dithering s | Some v \<Rightarrow> v)
         \<and> sharpen after = (case kw_sharpen kw0 of None \<Rightarrow> sharpen s | Some v \<Rightarrow> v)
         \<and> auto_enhance after =
             (case kw_auto_enhance kw0 of None \<Rightarrow> auto_enhance s | Some v \<Rightarrow> v)"
    unfolding Let_def after
    using mode
    by (simp add: override_fields(1-3,5-15) fields split: option.splits sum.splits)
qed

theorem convert_settings_after_call_witness:
  "resolve_names (no_kwargs\<lparr>kw_width := Some 20, kw_charset := Some (Inl ''Simple'')\<rparr>)
     = Inr (no_kwargs\<lparr>kw_width := Some 20, kw_charset := Some (Inr SIMPLE)\<rparr>)
   \<and> width (fst (convert black_source (png_file 1 1) (Some ConversionSettings_default)
        (no_kwargs\<lparr>kw_width := Some 20, kw_charset := Some (Inl ''Simple'')\<rparr>))) = 20
   \<and> charset (fst (convert black_source (png_file 1 1) (Some ConversionSettings_default)
        (no_kwargs\<lparr>kw_width := Some 20, kw_charset := Some (Inl ''Simple'')\<rparr>))) = SIMPLE
   \<and> contrast (fst (convert black_source (png_file 1 1) (Some ConversionSettings_default)
        (no_kwargs\<lparr>kw_width := Some 20, kw_charset := Some (Inl ''Simple'')\<rparr>))) = 12 / 10
   \<and> fst (convert black_source (png_file 1 1) (Some ConversionSettings_default) no_kwargs)
       = ConversionSettings_default
   \<and> resolve_names (no_kwargs\<lparr>kw_width := Some 20, kw_color_mode := Some (Inl ''sepia'')\<rparr>)
       = Inl ValueError
   \<and> fst (convert black_source (png_file 1 1) (Some ConversionSettings_default)
        (no_kwargs\<lparr>kw_width := Some 20, kw_color_mode := Some (Inl ''sepia'')\<rparr>))
       = ConversionSettings_default"
proof -
  let ?kw = "no_kwargs\<lparr>kw_width := Some 20, kw_charset := Some (Inl ''Simple'')\<rparr>"
  let ?bad = "no_kwargs\<lparr>kw_width := Some 20, kw_color_mode := Some (Inl ''sepia'')\<rparr>"
  have name: "get_charset_by_name ''Simple'' = SIMPLE"
    by code_simp
  have names: "resolve_names ?kw = Inr (no_kwargs\<lparr>kw_width := Some 20, kw_charset := Some (Inr SIMPLE)\<rparr>)"
    by (simp add: resolve_names_def no_kwargs_def name)
  have rejected: "resolve_names ?bad = Inl ValueError"
    by (simp add: resolve_names_def no_kwargs_def ColorMode_of_value_def)
  have given: "kw_width ?kw = Some 20" "kw_charset ?kw = Some (Inl ''Simple'')"
    "kw_contrast ?kw = None"
    by (simp_all add: no_kwargs_def)
  from convert_settings_after_call
    [of black_source "png_file 1 1" ConversionSettings_default ?kw] names
  have "width (fst (convert black_source (png_file 1 1) (Some ConversionSettings_default) ?kw)) = 20"
    and "charset (fst (convert black_source (png_file 1 1) (Some ConversionSettings_default) ?kw)) = SIMPLE"
    and "contrast (fst (convert black_source (png_file 1 1) (Some ConversionSettings_default) ?kw)) = 12 / 10"
    and "fst (convert black_source (png_file 1 1) (Some ConversionSettings_default) no_kwargs)
       = ConversionSettings_default"
    by (simp_all add: Let_def given name ConversionSettings_default_def)
  moreover from convert_settings_after_call
    [of black_source "png_file 1 1" ConversionSettings_default ?bad] rejected
  have "fst (convert black_source (png_file 1 1) (Some ConversionSettings_default) ?bad)
       = ConversionSettings_default"
    by simp
  ultimately show ?thesis
    using names rejected by simp
qed

text \<open>
  Claim C7, as stated, fails: after \<^verbatim>\<open>convert(settings, width=20)\<close> the caller's settings
  object has width 20 where it had 100.
\<close>

theorem convert_mutates_settings_counterexample:
  "width (fst (convert black_source (png_file 1 1) (Some ConversionSettings_default)
      (no_kwargs\<lparr>kw_width := Some 20\<rparr>))) = 20
   \<and> width ConversionSettings_default = 100"
  by (simp add: convert_settings resolve_names_def no_kwargs_def override_fields
      ConversionSettings_default_def)

end
